theory Spec2Isabelle
  imports
    Complex_Main
    "HOL-Library.Product_Lexorder"
    "HOL-Library.List_Lexorder"
    "HOL-Library.Char_ord"
    "HOL-Library.Multiset"
begin

section \<open>Numbers and Python errors\<close>

text \<open>
  The aggregation layer of the dashboard (\<^verbatim>\<open>dashboard_complete.py\<close>, \<^verbatim>\<open>data_handler.py\<close>)
  computes with Python integers and with binary64 floating-point numbers (Python
  \<^verbatim>\<open>float\<close>, numpy \<^verbatim>\<open>float64\<close>). A float is its mathematical value: a finite one is the
  rational it stands for, and the three special values of IEEE arithmetic are kept apart.
  Every operation computes the exact result and rounds it to the nearest binary64 number,
  ties to the even mantissa, as IEEE 754 prescribes. The sign of zero is not part of the
  model.
\<close>

datatype number = Fin rat | PInf | NInf | NaN

datatype error =
  KeyError | IndexError | ValueError | TypeError | OverflowError | ZeroDivisionError | OSError

text \<open>A raised exception ends the computation: the rest runs only on a returned value.\<close>

definition ebind :: "error + 'a \<Rightarrow> ('a \<Rightarrow> error + 'b) \<Rightarrow> error + 'b" where
  "ebind m f = (case m of Inl e \<Rightarrow> Inl e | Inr x \<Rightarrow> f x)"

text \<open>\<^verbatim>\<open>pd.isna\<close> / \<^verbatim>\<open>np.isnan\<close> on a float.\<close>

definition isna :: "number \<Rightarrow> bool" where
  "isna x = (x = NaN)"

subsection \<open>Rounding to binary64\<close>

text \<open>Rounding to the nearest integer, ties to the even one.\<close>

definition round_half_even :: "rat \<Rightarrow> int" where
  "round_half_even r =
     (let f = \<lfloor>r\<rfloor>; d = r - of_int f
      in if d < 1 / 2 then f else if 1 / 2 < d then f + 1 else if even f then f else f + 1)"

text \<open>The number of binary digits of a natural number (\<^verbatim>\<open>int.bit_length\<close>).\<close>

fun bit_length :: "nat \<Rightarrow> nat" where
  "bit_length n = (if n = 0 then 0 else Suc (bit_length (n div 2)))"

declare bit_length.simps [simp del]

text \<open>The binary exponent of a positive rational: \<open>2 ^ e \<le> x < 2 ^ (e + 1)\<close>.\<close>

definition ilog2 :: "rat \<Rightarrow> int" where
  "ilog2 x =
     (if 1 \<le> x then int (bit_length (nat \<lfloor>x\<rfloor>)) - 1
      else - int (bit_length (nat (\<lceil>1 / x\<rceil> - 1))))"

definition pow2 :: "int \<Rightarrow> rat" where
  "pow2 k = (if 0 \<le> k then 2 ^ nat k else 1 / 2 ^ nat (- k))"

text \<open>
  The binary64 number nearest to a rational: 53 significant bits, exponents from \<open>-1022\<close>
  (below it the spacing stays \<open>2 ^ -1074\<close>, the subnormal range), and an infinity once the
  rounded value reaches \<open>2 ^ 1024\<close>.
\<close>

definition float_round :: "rat \<Rightarrow> number" where
  "float_round x =
     (if x = 0 then Fin 0
      else let e = max (ilog2 \<bar>x\<bar>) (- 1022);
               q = pow2 (e - 52);
               y = of_int (round_half_even (\<bar>x\<bar> / q)) * q
           in if pow2 1024 \<le> y then (if 0 < x then PInf else NInf)
              else Fin (if 0 < x then y else - y))"

subsection \<open>IEEE arithmetic\<close>

fun num_add :: "number \<Rightarrow> number \<Rightarrow> number" where
  "num_add NaN _ = NaN"
| "num_add _ NaN = NaN"
| "num_add (Fin a) (Fin b) = float_round (a + b)"
| "num_add PInf NInf = NaN"
| "num_add NInf PInf = NaN"
| "num_add PInf _ = PInf"
| "num_add _ PInf = PInf"
| "num_add NInf _ = NInf"
| "num_add _ NInf = NInf"

fun num_neg :: "number \<Rightarrow> number" where
  "num_neg (Fin a) = Fin (- a)"
| "num_neg PInf = NInf"
| "num_neg NInf = PInf"
| "num_neg NaN = NaN"

text \<open>An infinity times a finite factor: the sign decides, and \<open>inf * 0\<close> is NaN.\<close>

definition inf_scaled :: "number \<Rightarrow> rat \<Rightarrow> number" where
  "inf_scaled i a = (if a = 0 then NaN else if 0 < a then i else num_neg i)"

fun num_mul :: "number \<Rightarrow> number \<Rightarrow> number" where
  "num_mul NaN _ = NaN"
| "num_mul _ NaN = NaN"
| "num_mul (Fin a) (Fin b) = float_round (a * b)"
| "num_mul (Fin a) PInf = inf_scaled PInf a"
| "num_mul (Fin a) NInf = inf_scaled NInf a"
| "num_mul PInf (Fin b) = inf_scaled PInf b"
| "num_mul NInf (Fin b) = inf_scaled NInf b"
| "num_mul PInf PInf = PInf"
| "num_mul NInf NInf = PInf"
| "num_mul PInf NInf = NInf"
| "num_mul NInf PInf = NInf"

text \<open>
  IEEE division as numpy performs it on its scalars: a zero divisor gives an infinity, or
  NaN for \<open>0 / 0\<close>; nothing is raised (the module silences the warnings).
\<close>

fun np_truediv :: "number \<Rightarrow> number \<Rightarrow> number" where
  "np_truediv NaN _ = NaN"
| "np_truediv _ NaN = NaN"
| "np_truediv (Fin a) (Fin b) =
     (if b = 0 then (if a = 0 then NaN else if 0 < a then PInf else NInf)
      else float_round (a / b))"
| "np_truediv (Fin a) PInf = Fin 0"
| "np_truediv (Fin a) NInf = Fin 0"
| "np_truediv PInf (Fin b) = (if b < 0 then NInf else PInf)"
| "np_truediv NInf (Fin b) = (if b < 0 then PInf else NInf)"
| "np_truediv PInf PInf = NaN"
| "np_truediv PInf NInf = NaN"
| "np_truediv NInf PInf = NaN"
| "np_truediv NInf NInf = NaN"

text \<open>\<^verbatim>\<open>np.rint\<close>: the nearest integer, ties to even.\<close>

fun rint :: "number \<Rightarrow> number" where
  "rint (Fin r) = Fin (of_int (round_half_even r))"
| "rint x = x"

text \<open>
  \<^verbatim>\<open>round(x, n)\<close> on a numpy \<^verbatim>\<open>float64\<close> is \<^verbatim>\<open>np.round\<close>: multiply by \<open>10 ^ n\<close>, round to
  an integer, divide by \<open>10 ^ n\<close>, each step in binary64.
\<close>

definition np_round :: "nat \<Rightarrow> number \<Rightarrow> number" where
  "np_round n x = np_truediv (rint (num_mul x (Fin (10 ^ n)))) (Fin (10 ^ n))"

text \<open>
  \<^verbatim>\<open>round(x, n)\<close> on a Python \<^verbatim>\<open>float\<close> rounds the exact value of \<open>x\<close> to \<open>n\<close> decimals,
  ties to even, and returns the float nearest to that decimal; the special values are
  returned unchanged.
\<close>

fun py_round :: "nat \<Rightarrow> number \<Rightarrow> number" where
  "py_round n (Fin r) = float_round (of_int (round_half_even (r * 10 ^ n)) / 10 ^ n)"
| "py_round n x = x"

subsection \<open>Python numbers\<close>

text \<open>A Python number is an \<^verbatim>\<open>int\<close> of any size or a \<^verbatim>\<open>float\<close>.\<close>

datatype pynum = PyInt int | PyFloat number

text \<open>\<^verbatim>\<open>x == 0\<close> and \<^verbatim>\<open>pd.isna(x)\<close> on a Python number.\<close>

fun py_is_zero :: "pynum \<Rightarrow> bool" where
  "py_is_zero (PyInt i) = (i = 0)"
| "py_is_zero (PyFloat x) = (x = Fin 0)"

fun py_isna :: "pynum \<Rightarrow> bool" where
  "py_isna (PyInt i) = False"
| "py_isna (PyFloat x) = isna x"

text \<open>
  The conversion of an operand to \<^verbatim>\<open>float\<close>: an \<^verbatim>\<open>int\<close> is rounded to the nearest float,
  and one beyond the range raises OverflowError.
\<close>

definition finite_or_overflow :: "number \<Rightarrow> error + number" where
  "finite_or_overflow x = (case x of Fin r \<Rightarrow> Inr (Fin r) | _ \<Rightarrow> Inl OverflowError)"

fun py_to_float :: "pynum \<Rightarrow> error + number" where
  "py_to_float (PyInt i) = finite_or_overflow (float_round (of_int i))"
| "py_to_float (PyFloat x) = Inr x"

text \<open>
  Python's \<^verbatim>\<open>/\<close>. On two ints the exact quotient is rounded once, and a quotient beyond
  the range of float raises OverflowError. Otherwise both operands are converted to float
  and divided as IEEE numbers. A zero divisor raises ZeroDivisionError.
\<close>

fun py_truediv :: "pynum \<Rightarrow> pynum \<Rightarrow> error + number" where
  "py_truediv (PyInt a) (PyInt b) =
     (if b = 0 then Inl ZeroDivisionError
      else finite_or_overflow (float_round (of_int a / of_int b)))"
| "py_truediv a b =
     ebind (py_to_float a) (\<lambda>x.
     ebind (py_to_float b) (\<lambda>y.
     if y = Fin 0 then Inl ZeroDivisionError else Inr (np_truediv x y)))"

text \<open>
  \<^verbatim>\<open>int(x)\<close> on a float truncates towards zero; NaN raises ValueError and an infinity
  OverflowError.
\<close>

definition trunc :: "rat \<Rightarrow> int" where
  "trunc r = (if 0 \<le> r then \<lfloor>r\<rfloor> else \<lceil>r\<rceil>)"

fun py_int :: "number \<Rightarrow> error + int" where
  "py_int (Fin r) = Inr (trunc r)"
| "py_int NaN = Inl ValueError"
| "py_int PInf = Inl OverflowError"
| "py_int NInf = Inl OverflowError"

section \<open>DataProcessor.calculate_coverage\<close>

text \<open>
  \<^verbatim>\<open>
  def calculate_coverage(numerator, denominator):
      if denominator == 0 or pd.isna(denominator):
          return 0
      return round((numerator / denominator) * 100, 2)
  \<close>
  The arguments are Python numbers (the callers pass the \<^verbatim>\<open>int\<close> of a column sum). The
  quotient is a float, \<^verbatim>\<open>* 100\<close> multiplies it by the float 100, and \<^verbatim>\<open>round\<close> is the
  one of \<^verbatim>\<open>float\<close>.
\<close>

definition calculate_coverage :: "pynum \<Rightarrow> pynum \<Rightarrow> error + pynum" where
  "calculate_coverage numerator denominator =
     (if py_is_zero denominator \<or> py_isna denominator then Inr (PyInt 0)
      else ebind (py_truediv numerator denominator) (\<lambda>q.
           Inr (PyFloat (py_round 2 (num_mul q (Fin 100))))))"

section \<open>Cells and the Python conversions\<close>

text \<open>
  A cell of a table read from CSV holds a number (a missing value is NaN) or a string.
  Numbers are floats; the entries of an integer column are the floats of the same value,
  which behave as the integers do as long as they stay below \<open>2 ^ 53\<close>.
\<close>

datatype cell = Num number | Str string

text \<open>
  \<^verbatim>\<open>str.upper\<close> on the ASCII letters; the sentinels it is compared with are ASCII.
\<close>

definition upper_char :: "char \<Rightarrow> char" where
  "upper_char c =
     (case map_of (zip ''abcdefghijklmnopqrstuvwxyz'' ''ABCDEFGHIJKLMNOPQRSTUVWXYZ'') c of
        None \<Rightarrow> c | Some u \<Rightarrow> u)"

definition upper :: "string \<Rightarrow> string" where
  "upper s = map upper_char s"

definition is_space :: "char \<Rightarrow> bool" where
  "is_space c = (c \<in> set [CHR '' '', CHR 0x09, CHR 0x0A, CHR 0x0B, CHR 0x0C, CHR 0x0D])"

definition strip :: "string \<Rightarrow> string" where
  "strip s = rev (dropWhile is_space (rev (dropWhile is_space s)))"

definition is_digit :: "char \<Rightarrow> bool" where
  "is_digit c = (c \<in> set ''0123456789'')"

definition digits_val :: "string \<Rightarrow> nat" where
  "digits_val ds = foldl (\<lambda>a c. 10 * a + (of_char c - 48)) 0 ds"

definition split_sign :: "string \<Rightarrow> bool \<times> string" where
  "split_sign s =
     (case s of
        [] \<Rightarrow> (False, [])
      | c # r \<Rightarrow> if c = CHR ''-'' then (True, r) else if c = CHR ''+'' then (False, r)
                 else (False, s))"

text \<open>
  The builtin \<^verbatim>\<open>float(str)\<close> on decimal notation: surrounding whitespace, a sign, digits
  with an optional fraction and exponent, and the words inf, infinity and nan in any case.
  The decimal is rounded to the nearest float. Underscores between digits and non-ASCII
  digits are not covered.
\<close>

definition parse_exponent :: "string \<Rightarrow> int option" where
  "parse_exponent s =
     (case s of
        [] \<Rightarrow> Some 0
      | c # r \<Rightarrow>
          if c = CHR ''e'' \<or> c = CHR ''E'' then
            (case split_sign r of
               (neg, ds) \<Rightarrow>
                 if ds \<noteq> [] \<and> list_all is_digit ds
                 then Some (if neg then - int (digits_val ds) else int (digits_val ds))
                 else None)
          else None)"

definition parse_decimal :: "string \<Rightarrow> rat option" where
  "parse_decimal s =
     (let ip = takeWhile is_digit s;
          r1 = dropWhile is_digit s;
          dot = (r1 \<noteq> [] \<and> hd r1 = CHR ''.'');
          fp = (if dot then takeWhile is_digit (tl r1) else []);
          r2 = (if dot then dropWhile is_digit (tl r1) else r1)
      in if ip = [] \<and> fp = [] then None
         else case parse_exponent r2 of
                None \<Rightarrow> None
              | Some e \<Rightarrow>
                  Some ((of_nat (digits_val ip) + of_nat (digits_val fp) / 10 ^ length fp)
                        * (if 0 \<le> e then 10 ^ nat e else 1 / 10 ^ nat (- e))))"

definition py_float_str :: "string \<Rightarrow> number option" where
  "py_float_str s =
     (case split_sign (strip s) of
        (neg, body) \<Rightarrow>
          if upper body = ''INF'' \<or> upper body = ''INFINITY''
          then Some (if neg then NInf else PInf)
          else if upper body = ''NAN'' then Some NaN
          else map_option (\<lambda>r. float_round (if neg then - r else r)) (parse_decimal body))"

text \<open>\<^verbatim>\<open>float(value)\<close>: a number is returned as it is, a string is parsed or raises.\<close>

fun py_float :: "cell \<Rightarrow> error + number" where
  "py_float (Num x) = Inr x"
| "py_float (Str s) = (case py_float_str s of None \<Rightarrow> Inl ValueError | Some x \<Rightarrow> Inr x)"

text \<open>The builtin \<^verbatim>\<open>int(str)\<close> on a signed run of decimal digits.\<close>

definition py_int_str :: "string \<Rightarrow> int option" where
  "py_int_str s =
     (case split_sign (strip s) of
        (neg, ds) \<Rightarrow>
          if ds \<noteq> [] \<and> list_all is_digit ds
          then Some (if neg then - int (digits_val ds) else int (digits_val ds))
          else None)"

text \<open>\<^verbatim>\<open>int(value)\<close> on a cell.\<close>

fun cell_int :: "cell \<Rightarrow> error + int" where
  "cell_int (Num x) = py_int x"
| "cell_int (Str s) = (case py_int_str s of None \<Rightarrow> Inl ValueError | Some i \<Rightarrow> Inr i)"

text \<open>
  \<^verbatim>\<open>a / b\<close> on two entries of a table row: numpy scalars divide as IEEE numbers, and a
  string operand raises TypeError.
\<close>

fun cell_truediv :: "cell \<Rightarrow> cell \<Rightarrow> error + number" where
  "cell_truediv (Num a) (Num b) = Inr (np_truediv a b)"
| "cell_truediv _ _ = Inl TypeError"

section \<open>clean\_numeric\<close>

text \<open>
  \<^verbatim>\<open>
  def clean_numeric(value):                      # dashboard_complete.py
      if isinstance(value, str) and value.upper() in ['NA', 'NAN']:
          return np.nan
      try:
          return float(value)
      except:
          return np.nan
  \<close>
\<close>

fun is_sentinel :: "cell \<Rightarrow> bool" where
  "is_sentinel (Str s) = (upper s \<in> set [''NA'', ''NAN''])"
| "is_sentinel (Num x) = False"

definition clean_numeric :: "cell \<Rightarrow> number" where
  "clean_numeric v =
     (if is_sentinel v then NaN
      else case py_float v of Inl e \<Rightarrow> NaN | Inr x \<Rightarrow> x)"

text \<open>
  \<^verbatim>\<open>
  def clean_numeric(val):                        # data_handler.py, in get_environment_stats
      try:
          return float(val) if pd.notna(val) else np.nan
      except:
          return np.nan
  \<close>
\<close>

definition notna :: "cell \<Rightarrow> bool" where
  "notna v = (v \<noteq> Num NaN)"

definition dh_clean_numeric :: "cell \<Rightarrow> number" where
  "dh_clean_numeric v =
     (case (if notna v then py_float v else Inr NaN) of Inl e \<Rightarrow> NaN | Inr x \<Rightarrow> x)"

section \<open>Tables\<close>

text \<open>
  A pandas DataFrame is a list of column names and a list of rows. A row gives a cell for
  every name; only the names listed in \<open>columns\<close> belong to the table. Column names are
  distinct, as \<^verbatim>\<open>read_csv\<close> makes them.
\<close>

type_synonym row = "string \<Rightarrow> cell"

record frame =
  columns :: "string list"
  rows :: "row list"

text \<open>\<^verbatim>\<open>df.empty\<close>: no columns or no rows.\<close>

definition frame_empty :: "frame \<Rightarrow> bool" where
  "frame_empty df = (columns df = [] \<or> rows df = [])"

text \<open>The guard \<^verbatim>\<open>df is None or df.empty\<close> that opens every query.\<close>

definition no_data :: "frame option \<Rightarrow> bool" where
  "no_data d = (case d of None \<Rightarrow> True | Some df \<Rightarrow> frame_empty df)"

text \<open>\<^verbatim>\<open>df[name]\<close>: the cells of one column, KeyError when the table has no such column.\<close>

definition getitem :: "frame \<Rightarrow> string \<Rightarrow> error + cell list" where
  "getitem df c = (if c \<in> set (columns df) then Inr (map (\<lambda>r. r c) (rows df)) else Inl KeyError)"

text \<open>\<^verbatim>\<open>df[[name, ...]]\<close>: the table restricted to the listed columns.\<close>

definition select :: "frame \<Rightarrow> string list \<Rightarrow> error + frame" where
  "select df cs =
     (if list_all (\<lambda>c. c \<in> set (columns df)) cs then Inr (df\<lparr>columns := cs\<rparr>) else Inl KeyError)"

text \<open>
  \<^verbatim>\<open>df[name] = series\<close>, for a series computed from \<open>df\<close> itself: an existing column is
  replaced in place, a new one is appended.
\<close>

definition assign :: "frame \<Rightarrow> string \<Rightarrow> cell list \<Rightarrow> frame" where
  "assign df c vs =
     \<lparr>columns = (if c \<in> set (columns df) then columns df else columns df @ [c]),
      rows = map (\<lambda>(r, v). r(c := v)) (zip (rows df) vs)\<rparr>"

definition head :: "int \<Rightarrow> frame \<Rightarrow> frame" where
  "head n df =
     df\<lparr>rows := (if 0 \<le> n then take (nat n) (rows df)
                 else take (length (rows df) - nat (- n)) (rows df))\<rparr>"

definition tail :: "nat \<Rightarrow> frame \<Rightarrow> frame" where
  "tail n df = df\<lparr>rows := drop (length (rows df) - n) (rows df)\<rparr>"

text \<open>The sequence of pairs that two columns of a table hold, row by row.\<close>

definition frame_pairs :: "string \<Rightarrow> string \<Rightarrow> frame \<Rightarrow> (cell \<times> cell) list" where
  "frame_pairs c1 c2 df = map (\<lambda>r. (r c1, r c2)) (rows df)"

subsection \<open>Aggregation of a column\<close>

text \<open>
  \<^verbatim>\<open>Series.sum\<close> and \<^verbatim>\<open>Series.mean\<close> skip the missing values; the sum of nothing is 0
  and the mean of nothing is NaN. The values are added from left to right, each addition
  rounded; numpy adds long columns in another order, which gives the same sum whenever the
  partial sums are exact (integer counts below \<open>2 ^ 53\<close>). The model covers numeric
  columns: a string among numbers is the TypeError pandas raises when it cannot add them,
  and a column of strings only, which pandas would concatenate, is not covered.
\<close>

fun cell_number :: "cell \<Rightarrow> error + number" where
  "cell_number (Num x) = Inr x"
| "cell_number (Str s) = Inl TypeError"

fun numbers :: "cell list \<Rightarrow> error + number list" where
  "numbers [] = Inr []"
| "numbers (c # cs) =
     (case cell_number c of
        Inl e \<Rightarrow> Inl e
      | Inr x \<Rightarrow> (case numbers cs of Inl e \<Rightarrow> Inl e | Inr xs \<Rightarrow> Inr (x # xs)))"

definition sum_skipna :: "number list \<Rightarrow> number" where
  "sum_skipna xs = foldl num_add (Fin 0) (filter (\<lambda>x. x \<noteq> NaN) xs)"

definition mean_skipna :: "number list \<Rightarrow> number" where
  "mean_skipna xs =
     (let ys = filter (\<lambda>x. x \<noteq> NaN) xs
      in if ys = [] then NaN else np_truediv (sum_skipna ys) (Fin (of_nat (length ys))))"

definition series_sum :: "cell list \<Rightarrow> error + number" where
  "series_sum cs = (case numbers cs of Inl e \<Rightarrow> Inl e | Inr xs \<Rightarrow> Inr (sum_skipna xs))"

definition series_mean :: "cell list \<Rightarrow> error + number" where
  "series_mean cs = (case numbers cs of Inl e \<Rightarrow> Inl e | Inr xs \<Rightarrow> Inr (mean_skipna xs))"

subsection \<open>Sorting\<close>

text \<open>
  The order of the numbers, and of the cells that serve as group keys (numbers before
  strings, strings by code point).
\<close>

fun num_key :: "number \<Rightarrow> int \<times> rat" where
  "num_key (Fin r) = (0, r)"
| "num_key PInf = (1, 0)"
| "num_key NInf = (- 1, 0)"
| "num_key NaN = (2, 0)"

fun cell_key :: "cell \<Rightarrow> nat \<times> (int \<times> rat) \<times> string" where
  "cell_key (Num x) = (0, num_key x, [])"
| "cell_key (Str s) = (1, (0, 0), s)"

fun is_num :: "cell \<Rightarrow> bool" where
  "is_num (Num x) = True"
| "is_num (Str s) = False"

fun is_str :: "cell \<Rightarrow> bool" where
  "is_str (Str s) = True"
| "is_str (Num x) = False"

text \<open>
  \<^verbatim>\<open>nargsort\<close>: the rows are sorted by their key; for a descending sort the rows are
  reversed, sorted ascending and reversed again. pandas' default sort is not stable on
  long inputs; the stable \<open>sort_key\<close> stands for it, and nothing below depends on the
  order among equal keys.
\<close>

definition order_by :: "('a \<Rightarrow> 'k::linorder) \<Rightarrow> bool \<Rightarrow> 'a list \<Rightarrow> 'a list" where
  "order_by f ascending xs = (if ascending then sort_key f xs else rev (sort_key f (rev xs)))"

text \<open>
  \<^verbatim>\<open>df.sort_values(name, ascending=...)\<close>: rows with a missing key go last; a column that
  mixes numbers and strings cannot be compared and raises TypeError.
\<close>

definition sort_values :: "frame \<Rightarrow> string \<Rightarrow> bool \<Rightarrow> error + frame" where
  "sort_values df c ascending =
     (if c \<notin> set (columns df) then Inl KeyError
      else let present = filter (\<lambda>r. r c \<noteq> Num NaN) (rows df);
               missing = filter (\<lambda>r. r c = Num NaN) (rows df)
           in if list_all (\<lambda>r. is_num (r c)) present \<or> list_all (\<lambda>r. is_str (r c)) present
              then Inr (df\<lparr>rows := order_by (\<lambda>r. cell_key (r c)) ascending present @ missing\<rparr>)
              else Inl TypeError)"

subsection \<open>Grouping\<close>

text \<open>
  \<^verbatim>\<open>df.groupby(g)[v].sum()\<close>: rows with a missing key are dropped, the groups come in the
  order of their keys, and each group's values are summed skipping NaN.
\<close>

definition group_keys :: "frame \<Rightarrow> string \<Rightarrow> cell list" where
  "group_keys df g =
     sort_key cell_key (remdups (filter (\<lambda>k. k \<noteq> Num NaN) (map (\<lambda>r. r g) (rows df))))"

definition group_values :: "frame \<Rightarrow> string \<Rightarrow> string \<Rightarrow> cell \<Rightarrow> cell list" where
  "group_values df g v k = map (\<lambda>r. r v) (filter (\<lambda>r. r g = k) (rows df))"

fun group_sums :: "frame \<Rightarrow> string \<Rightarrow> string \<Rightarrow> cell list \<Rightarrow> error + (cell \<times> number) list" where
  "group_sums df g v [] = Inr []"
| "group_sums df g v (k # ks) =
     (case series_sum (group_values df g v k) of
        Inl e \<Rightarrow> Inl e
      | Inr s \<Rightarrow> (case group_sums df g v ks of Inl e \<Rightarrow> Inl e | Inr ps \<Rightarrow> Inr ((k, s) # ps)))"

definition groupby_sum :: "frame \<Rightarrow> string \<Rightarrow> string \<Rightarrow> error + (cell \<times> number) list" where
  "groupby_sum df g v =
     (if g \<notin> set (columns df) then Inl KeyError
      else if v \<notin> set (columns df) then Inl KeyError
      else group_sums df g v (group_keys df g))"

text \<open>
  \<^verbatim>\<open>.reset_index()\<close> followed by \<^verbatim>\<open>result.columns = [kc, vc]\<close>: the grouped series
  becomes a table of two columns. \<^verbatim>\<open>reset_index\<close> raises ValueError when the summed
  column is the grouping column itself.
\<close>

definition pair_row :: "string \<Rightarrow> string \<Rightarrow> cell \<times> number \<Rightarrow> row" where
  "pair_row kc vc p = (\<lambda>c. Num NaN)(kc := fst p, vc := Num (snd p))"

definition reset_index :: "string \<Rightarrow> string \<Rightarrow> string \<Rightarrow> string \<Rightarrow> (cell \<times> number) list
    \<Rightarrow> error + frame" where
  "reset_index g v kc vc ps =
     (if v = g then Inl ValueError
      else Inr \<lparr>columns = [kc, vc], rows = map (pair_row kc vc) ps\<rparr>)"

section \<open>DataLoader and DataHandler.load\_data\<close>

text \<open>
  The loaded tables: a dictionary from dataset name to a table or \<^verbatim>\<open>None\<close>. A name
  outside the dictionary is \<open>None\<close> of the map; a dataset that failed to load is
  \<open>Some None\<close>.
\<close>

type_synonym store = "string \<rightharpoonup> frame option"

text \<open>\<^verbatim>\<open>self.data[name]\<close>: KeyError for a name that is not in the dictionary.\<close>

definition lookup :: "store \<Rightarrow> string \<Rightarrow> error + frame option" where
  "lookup data k = (case data k of None \<Rightarrow> Inl KeyError | Some d \<Rightarrow> Inr d)"

text \<open>
  What the file system holds at a path: nothing, a file that \<^verbatim>\<open>pd.read_csv\<close> fails on
  with some exception (no permission, malformed or empty content), or a CSV file with the
  table it parses to.
\<close>

datatype disk_file = NoFile | BadFile error | Csv frame

type_synonym filesystem = "string \<Rightarrow> disk_file"

definition path_exists :: "filesystem \<Rightarrow> string \<Rightarrow> bool" where
  "path_exists fs path = (fs path \<noteq> NoFile)"

definition read_csv :: "filesystem \<Rightarrow> string \<Rightarrow> error + frame" where
  "read_csv fs path =
     (case fs path of NoFile \<Rightarrow> Inl OSError | BadFile e \<Rightarrow> Inl e | Csv df \<Rightarrow> Inr df)"

text \<open>\<^verbatim>\<open>os.path.join(directory, filename)\<close> for a relative file name (POSIX).\<close>

definition path_join :: "string \<Rightarrow> string \<Rightarrow> string" where
  "path_join dir filename =
     (if dir = [] \<or> last dir = CHR ''/'' then dir @ filename else dir @ ''/'' @ filename)"

text \<open>
  \<^verbatim>\<open>
  for key, filename in files.items():
      path = os.path.join(self.datasets_dir, filename)
      try:
          if os.path.exists(path):
              self.data[key] = pd.read_csv(path)
          else:
              self.data[key] = None
      except:
          self.data[key] = None
  return self.data
  \<close>
  The body of the \<^verbatim>\<open>try\<close> is \<open>try_load\<close>; the handler turns every exception into
  \<^verbatim>\<open>None\<close>.
\<close>

definition try_load :: "filesystem \<Rightarrow> string \<Rightarrow> error + frame option" where
  "try_load fs path =
     (if path_exists fs path then ebind (read_csv fs path) (\<lambda>df. Inr (Some df)) else Inr None)"

definition load_entry :: "filesystem \<Rightarrow> string \<Rightarrow> frame option" where
  "load_entry fs path = (case try_load fs path of Inl e \<Rightarrow> None | Inr d \<Rightarrow> d)"

fun load_files :: "filesystem \<Rightarrow> string \<Rightarrow> (string \<times> string) list \<Rightarrow> store \<Rightarrow> store" where
  "load_files fs dir [] data = data"
| "load_files fs dir ((key, filename) # rest) data =
     load_files fs dir rest (data(key \<mapsto> load_entry fs (path_join dir filename)))"

definition files :: "(string \<times> string) list" where
  "files =
     [(''water_sanitation'', ''unified_water_sanitation.csv''),
      (''environment'', ''unified_environment.csv''),
      (''crimes'', ''unified_crimes.csv''),
      (''intersections'', ''unified_intersections.csv''),
      (''employment'', ''unified_employment.csv'')]"

definition load_all :: "filesystem \<Rightarrow> string \<Rightarrow> store \<Rightarrow> store" where
  "load_all fs datasets_dir data = load_files fs datasets_dir files data"

text \<open>\<^verbatim>\<open>DataHandler.load_data\<close> is the same loop over its own names.\<close>

definition dh_files :: "(string \<times> string) list" where
  "dh_files =
     [(''water'', ''unified_water_sanitation.csv''),
      (''environment'', ''unified_environment.csv''),
      (''crimes'', ''unified_crimes.csv''),
      (''infrastructure'', ''unified_intersections.csv''),
      (''employment'', ''unified_employment.csv'')]"

definition dh_load_data :: "filesystem \<Rightarrow> string \<Rightarrow> store \<Rightarrow> store" where
  "dh_load_data fs data_path datasets = load_files fs data_path dh_files datasets"

section \<open>DataProcessor: zone and ward summaries\<close>

text \<open>
  The three grouping queries share their body:
  \<^verbatim>\<open>
  result = df.groupby(g)[value_col].sum().reset_index()
  result.columns = [kc, 'Value']
  return result.sort_values('Value', ascending=False)
  \<close>
\<close>

definition grouped_sorted :: "frame \<Rightarrow> string \<Rightarrow> string \<Rightarrow> string \<Rightarrow> error + frame" where
  "grouped_sorted df g value_col kc =
     ebind (groupby_sum df g value_col) (\<lambda>ps.
     ebind (reset_index g value_col kc ''Value'' ps) (\<lambda>result.
     sort_values result ''Value'' False))"

text \<open>
  \<^verbatim>\<open>
  def get_zone_summary(df, value_col):
      if df is None or df.empty:
          return None
      try:
          ...
      except:
          return None
  \<close>
\<close>

definition get_zone_summary :: "frame option \<Rightarrow> string \<Rightarrow> frame option" where
  "get_zone_summary d value_col =
     (case d of
        None \<Rightarrow> None
      | Some df \<Rightarrow>
          if frame_empty df then None
          else case grouped_sorted df ''Zone Name'' value_col ''Zone Name'' of
                 Inl e \<Rightarrow> None
               | Inr result \<Rightarrow> Some result)"

text \<open>\<^verbatim>\<open>get_ward_summary\<close> groups by ward and ends with \<^verbatim>\<open>.head(top_n)\<close>.\<close>

definition get_ward_summary :: "frame option \<Rightarrow> string \<Rightarrow> int \<Rightarrow> frame option" where
  "get_ward_summary d value_col top_n =
     (case d of
        None \<Rightarrow> None
      | Some df \<Rightarrow>
          if frame_empty df then None
          else case grouped_sorted df ''Ward Name'' value_col ''Ward Name'' of
                 Inl e \<Rightarrow> None
               | Inr result \<Rightarrow> Some (head top_n result))"

section \<open>What a group summary is\<close>

text \<open>
  The order in which a descending \<^verbatim>\<open>sort_values\<close> leaves the sums: a larger one before a
  smaller one, and a missing one (NaN) after all others.
\<close>

definition desc_nan_last :: "number \<Rightarrow> number \<Rightarrow> bool" where
  "desc_nan_last a b = (b = NaN \<or> a \<noteq> NaN \<and> num_key b \<le> num_key a)"

text \<open>
  The pairs \<open>qs\<close> are the groups of the table by column \<open>g\<close>, each key once with the sum
  of its rows' values in column \<open>v\<close>, in descending order of the sums.
\<close>

definition is_group_summary :: "frame \<Rightarrow> string \<Rightarrow> string \<Rightarrow> (cell \<times> number) list \<Rightarrow> bool" where
  "is_group_summary df g v qs =
     (distinct (map fst qs)
      \<and> set (map fst qs) = set (filter (\<lambda>k. k \<noteq> Num NaN) (map (\<lambda>r. r g) (rows df)))
      \<and> list_all (\<lambda>(k, s). series_sum (group_values df g v k) = Inr s) qs
      \<and> sorted_wrt desc_nan_last (map snd qs))"

section \<open>DashboardApp\<close>

text \<open>
  A query returns a dictionary of statistics or a table. A dictionary is an association
  list in the order of the dictionary literal; the empty list is the empty dictionary
  \<^verbatim>\<open>{}\<close>. Its values are Python numbers (a numpy \<^verbatim>\<open>float64\<close> is a float), or the tables
  (or \<^verbatim>\<open>None\<close>) of a zone summary.
\<close>

datatype pyval = VNum pynum | VFrame "frame option"

type_synonym stats = "(string \<times> pyval) list"

text \<open>\<^verbatim>\<open>int(df[name].sum())\<close>\<close>

definition int_sum :: "frame \<Rightarrow> string \<Rightarrow> error + int" where
  "int_sum df c = ebind (getitem df c) (\<lambda>cs. ebind (series_sum cs) py_int)"

text \<open>
  \<^verbatim>\<open>
  def get_water_sanitation_stats(self):
      ws = self.data['water_sanitation']
      if ws is None or ws.empty:
          return {}
      stats = {
          'total_households': int(ws['Total number of households (HH)'].sum()),
          ... seven more sums ...
      }
      stats['sewerage_pct'] = self.processor.calculate_coverage(
          stats['sewerage_coverage'], stats['total_households'])
      stats['toilet_pct'] = self.processor.calculate_coverage(
          stats['toilet_coverage'], stats['total_households'])
      return stats
  \<close>
\<close>

definition water_sanitation_stats :: "frame \<Rightarrow> error + stats" where
  "water_sanitation_stats ws =
     ebind (int_sum ws ''Total number of households (HH)'') (\<lambda>total_households.
     ebind (int_sum ws ''HH part of the city sewerage network'') (\<lambda>sewerage_coverage.
     ebind (int_sum ws ''Number of Households with toilets'') (\<lambda>toilet_coverage.
     ebind (int_sum ws ''Number of Public Toilet '') (\<lambda>public_toilets.
     ebind (int_sum ws ''Number of free public toilets - Female'') (\<lambda>free_toilets_female.
     ebind (int_sum ws ''Number of free public toilets - Male'') (\<lambda>free_toilets_male.
     ebind (int_sum ws ''Number of paid public toilets - Female'') (\<lambda>paid_toilets_female.
     ebind (int_sum ws ''Number of paid public toilets - Male'') (\<lambda>paid_toilets_male.
     ebind (calculate_coverage (PyInt sewerage_coverage) (PyInt total_households))
       (\<lambda>sewerage_pct.
     ebind (calculate_coverage (PyInt toilet_coverage) (PyInt total_households)) (\<lambda>toilet_pct.
     Inr [(''total_households'', VNum (PyInt total_households)),
          (''sewerage_coverage'', VNum (PyInt sewerage_coverage)),
          (''toilet_coverage'', VNum (PyInt toilet_coverage)),
          (''public_toilets'', VNum (PyInt public_toilets)),
          (''free_toilets_female'', VNum (PyInt free_toilets_female)),
          (''free_toilets_male'', VNum (PyInt free_toilets_male)),
          (''paid_toilets_female'', VNum (PyInt paid_toilets_female)),
          (''paid_toilets_male'', VNum (PyInt paid_toilets_male)),
          (''sewerage_pct'', VNum sewerage_pct),
          (''toilet_pct'', VNum toilet_pct)]))))))))))"

definition get_water_sanitation_stats :: "store \<Rightarrow> error + stats" where
  "get_water_sanitation_stats data =
     ebind (lookup data ''water_sanitation'') (\<lambda>d.
       case d of
         None \<Rightarrow> Inr []
       | Some ws \<Rightarrow> if frame_empty ws then Inr [] else water_sanitation_stats ws)"

text \<open>
  \<^verbatim>\<open>env[dst] = env[src].apply(self.processor.clean_numeric)\<close>: one statement of
  \<^verbatim>\<open>get_environment_stats\<close> and of \<^verbatim>\<open>get_environment_trend\<close>.
\<close>

definition clean_column :: "frame \<Rightarrow> string \<Rightarrow> string \<Rightarrow> error + frame" where
  "clean_column env dst src =
     ebind (getitem env src) (\<lambda>cs. Inr (assign env dst (map (\<lambda>c. Num (clean_numeric c)) cs)))"

text \<open>
  A run of such statements on one table. Each statement changes the table it is applied
  to, so when one raises, the table keeps the columns the earlier ones added.
\<close>

fun clean_columns :: "frame \<Rightarrow> (string \<times> string) list \<Rightarrow> error option \<times> frame" where
  "clean_columns env [] = (None, env)"
| "clean_columns env ((dst, src) # rest) =
     (case clean_column env dst src of
        Inl e \<Rightarrow> (Some e, env)
      | Inr env' \<Rightarrow> clean_columns env' rest)"

definition pollutant_columns :: "(string \<times> string) list" where
  "pollutant_columns =
     [(''PM2.5'', ''Monthly mean/average concentration - PM2.5''),
      (''PM10'', ''Monthly mean concentration - PM10''),
      (''NO2'', ''Monthly mean concentration - NO2''),
      (''SO2'', ''Monthly mean concentration - SO2''),
      (''O3'', ''Monthly mean concentration - O3'')]"

text \<open>\<^verbatim>\<open>round(env[name].mean(), 2)\<close>: the mean is a numpy \<^verbatim>\<open>float64\<close>.\<close>

definition rounded_mean :: "frame \<Rightarrow> string \<Rightarrow> error + number" where
  "rounded_mean env c =
     ebind (getitem env c) (\<lambda>cs. ebind (series_mean cs) (\<lambda>m. Inr (np_round 2 m)))"

definition environment_means :: "frame \<Rightarrow> error + stats" where
  "environment_means env =
     ebind (rounded_mean env ''PM2.5'') (\<lambda>pm25_avg.
     ebind (rounded_mean env ''PM10'') (\<lambda>pm10_avg.
     ebind (rounded_mean env ''NO2'') (\<lambda>no2_avg.
     ebind (rounded_mean env ''SO2'') (\<lambda>so2_avg.
     ebind (rounded_mean env ''O3'') (\<lambda>o3_avg.
     Inr [(''pm25_avg'', VNum (PyFloat pm25_avg)),
          (''pm10_avg'', VNum (PyFloat pm10_avg)),
          (''no2_avg'', VNum (PyFloat no2_avg)),
          (''so2_avg'', VNum (PyFloat so2_avg)),
          (''o3_avg'', VNum (PyFloat o3_avg))])))))"

text \<open>
  \<^verbatim>\<open>
  def get_environment_stats(self):
      env = self.data['environment']
      if env is None or env.empty:
          return {}
      env['PM2.5'] = env['Monthly mean/average concentration - PM2.5'].apply(...)
      ... PM10, NO2, SO2, O3 ...
      return {'pm25_avg': round(env['PM2.5'].mean(), 2), ...}
  \<close>
  \<open>env\<close> is the table object stored in \<^verbatim>\<open>self.data\<close>, not a copy, so the assignments
  change the stored table: the query returns its result together with the store it leaves.
\<close>

definition get_environment_stats :: "store \<Rightarrow> (error + stats) \<times> store" where
  "get_environment_stats data =
     (case lookup data ''environment'' of
        Inl e \<Rightarrow> (Inl e, data)
      | Inr None \<Rightarrow> (Inr [], data)
      | Inr (Some env) \<Rightarrow>
          if frame_empty env then (Inr [], data)
          else case clean_columns env pollutant_columns of
                 (Some e, env') \<Rightarrow> (Inl e, data(''environment'' \<mapsto> Some env'))
               | (None, env') \<Rightarrow> (environment_means env', data(''environment'' \<mapsto> Some env')))"

text \<open>
  \<^verbatim>\<open>
  def get_crimes_trend(self):
      crimes = self.data['crimes']
      if crimes is None or crimes.empty:
          return None
      result = crimes[['Year', 'Total number of crimes recorded']].copy()
      return result.sort_values('Year')
  \<close>
\<close>

definition crimes_trend :: "frame \<Rightarrow> error + frame" where
  "crimes_trend crimes =
     ebind (select crimes [''Year'', ''Total number of crimes recorded'']) (\<lambda>result.
     sort_values result ''Year'' True)"

definition get_crimes_trend :: "store \<Rightarrow> error + frame option" where
  "get_crimes_trend data =
     ebind (lookup data ''crimes'') (\<lambda>d.
       case d of
         None \<Rightarrow> Inr None
       | Some crimes \<Rightarrow>
           if frame_empty crimes then Inr None
           else ebind (crimes_trend crimes) (\<lambda>result. Inr (Some result)))"

text \<open>\<^verbatim>\<open>get_intersections_summary\<close>: two totals and the two zone summaries.\<close>

definition intersections_summary :: "frame \<Rightarrow> error + stats" where
  "intersections_summary intr =
     ebind (int_sum intr ''No. of intersections / junctions'') (\<lambda>total_intersections.
     ebind (int_sum intr ''Total number of operational signalized intersections'')
       (\<lambda>signalized_intersections.
     Inr [(''total_intersections'', VNum (PyInt total_intersections)),
          (''signalized_intersections'', VNum (PyInt signalized_intersections)),
          (''by_zone'',
             VFrame (get_zone_summary (Some intr) ''No. of intersections / junctions'')),
          (''signalized_by_zone'',
             VFrame (get_zone_summary (Some intr)
               ''Total number of operational signalized intersections''))]))"

definition get_intersections_summary :: "store \<Rightarrow> error + stats" where
  "get_intersections_summary data =
     ebind (lookup data ''intersections'') (\<lambda>d.
       case d of
         None \<Rightarrow> Inr []
       | Some intr \<Rightarrow> if frame_empty intr then Inr [] else intersections_summary intr)"

text \<open>\<^verbatim>\<open>row[name]\<close> on the row \<^verbatim>\<open>df.iloc[0]\<close>.\<close>

definition row_get :: "frame \<Rightarrow> row \<Rightarrow> string \<Rightarrow> error + cell" where
  "row_get df r c = (if c \<in> set (columns df) then Inr (r c) else Inl KeyError)"

definition iloc0 :: "frame \<Rightarrow> error + row" where
  "iloc0 df = (case rows df of [] \<Rightarrow> Inl IndexError | r # rs \<Rightarrow> Inr r)"

text \<open>
  \<^verbatim>\<open>
  def get_employment_stats(self):
      emp = self.data['employment']
      if emp is None or emp.empty:
          return {}
      row = emp.iloc[0]
      unemployed = row['No. of unemployed persons (seeking or available for work)']
      employed = row['No. of employed persons']
      labour_force = row['Total labour force in the city (age 15-59) [Employed + ...)']
      return {
          'unemployed': int(unemployed),
          'employed': int(employed),
          'labour_force': int(labour_force),
          'unemployment_rate': round((unemployed / labour_force) * 100, 2),
          'employment_rate': round((employed / labour_force) * 100, 2),
      }
  \<close>
  The divisions are on the entries of the row, which are numpy scalars, so the quotient is
  a \<^verbatim>\<open>float64\<close> and \<^verbatim>\<open>round\<close> is the one of numpy.
\<close>

definition employment_stats :: "frame \<Rightarrow> error + stats" where
  "employment_stats emp =
     ebind (iloc0 emp) (\<lambda>row.
     ebind (row_get emp row ''No. of unemployed persons (seeking or available for work)'')
       (\<lambda>unemployed.
     ebind (row_get emp row ''No. of employed persons'') (\<lambda>employed.
     ebind (row_get emp row
         ''Total labour force in the city (age 15-59) [Employed + Unemployed Persons)'')
       (\<lambda>labour_force.
     ebind (cell_int unemployed) (\<lambda>unemployed_int.
     ebind (cell_int employed) (\<lambda>employed_int.
     ebind (cell_int labour_force) (\<lambda>labour_force_int.
     ebind (cell_truediv unemployed labour_force) (\<lambda>unemployed_share.
     ebind (cell_truediv employed labour_force) (\<lambda>employed_share.
     Inr [(''unemployed'', VNum (PyInt unemployed_int)),
          (''employed'', VNum (PyInt employed_int)),
          (''labour_force'', VNum (PyInt labour_force_int)),
          (''unemployment_rate'',
             VNum (PyFloat (np_round 2 (num_mul unemployed_share (Fin 100))))),
          (''employment_rate'',
             VNum (PyFloat (np_round 2 (num_mul employed_share (Fin 100)))))])))))))))"

definition get_employment_stats :: "store \<Rightarrow> error + stats" where
  "get_employment_stats data =
     ebind (lookup data ''employment'') (\<lambda>d.
       case d of
         None \<Rightarrow> Inr []
       | Some emp \<Rightarrow> if frame_empty emp then Inr [] else employment_stats emp)"

text \<open>The three queries that hand a stored table to a summary of the processor.\<close>

definition get_water_by_zone :: "store \<Rightarrow> error + frame option" where
  "get_water_by_zone data =
     ebind (lookup data ''water_sanitation'') (\<lambda>ws.
       if no_data ws then Inr None
       else Inr (get_zone_summary ws ''Total number of households (HH)''))"

definition get_water_by_ward :: "store \<Rightarrow> error + frame option" where
  "get_water_by_ward data =
     ebind (lookup data ''water_sanitation'') (\<lambda>ws.
       if no_data ws then Inr None
       else Inr (get_ward_summary ws ''Number of Public Toilet '' 15))"

definition get_intersections_by_zone :: "store \<Rightarrow> error + frame option" where
  "get_intersections_by_zone data =
     ebind (lookup data ''intersections'') (\<lambda>intr.
       if no_data intr then Inr None
       else Inr (get_zone_summary intr ''No. of intersections / junctions''))"

text \<open>
  \<^verbatim>\<open>
  def get_environment_trend(self):
      env = self.data['environment']
      if env is None or env.empty:
          return None
      env_copy = env.copy()
      env_copy['PM2.5'] = env_copy['Monthly mean/average concentration - PM2.5'].apply(...)
      env_copy['PM10'] = env_copy['Monthly mean concentration - PM10'].apply(...)
      return env_copy[['Month -Year', 'PM2.5', 'PM10']].tail(12)
  \<close>
  The assignments go to the copy; the stored table is not touched.
\<close>

definition environment_trend :: "frame \<Rightarrow> error + frame" where
  "environment_trend env_copy =
     ebind (clean_column env_copy ''PM2.5'' ''Monthly mean/average concentration - PM2.5'')
       (\<lambda>env1.
     ebind (clean_column env1 ''PM10'' ''Monthly mean concentration - PM10'') (\<lambda>env2.
     ebind (select env2 [''Month -Year'', ''PM2.5'', ''PM10'']) (\<lambda>result.
     Inr (tail 12 result))))"

definition get_environment_trend :: "store \<Rightarrow> error + frame option" where
  "get_environment_trend data =
     ebind (lookup data ''environment'') (\<lambda>d.
       case d of
         None \<Rightarrow> Inr None
       | Some env \<Rightarrow>
           if frame_empty env then Inr None
           else ebind (environment_trend env) (\<lambda>result. Inr (Some result)))"

section \<open>DataHandler\<close>

text \<open>
  The percentages of \<^verbatim>\<open>data_handler.py\<close> are all written
  \<^verbatim>\<open>round((a / b) * 100, n) if b > 0 else 0\<close>, on Python integers.
\<close>

definition dh_pct :: "nat \<Rightarrow> int \<Rightarrow> int \<Rightarrow> error + pynum" where
  "dh_pct n a b =
     (if 0 < b
      then ebind (py_truediv (PyInt a) (PyInt b)) (\<lambda>q.
           Inr (PyFloat (py_round n (num_mul q (Fin 100)))))
      else Inr (PyInt 0))"

definition dh_water_stats :: "frame \<Rightarrow> error + stats" where
  "dh_water_stats df =
     ebind (int_sum df ''Total number of households (HH)'') (\<lambda>total_households.
     ebind (int_sum df ''HH part of the city sewerage network'') (\<lambda>sewerage.
     ebind (int_sum df ''Number of Households with toilets'') (\<lambda>toilets.
     ebind (int_sum df ''Number of Public Toilet '') (\<lambda>public_toilets.
     ebind (dh_pct 1 sewerage total_households) (\<lambda>sewerage_pct.
     ebind (dh_pct 1 toilets total_households) (\<lambda>toilet_pct.
     Inr [(''total_households'', VNum (PyInt total_households)),
          (''sewerage_coverage'', VNum (PyInt sewerage)),
          (''toilet_coverage'', VNum (PyInt toilets)),
          (''public_toilets'', VNum (PyInt public_toilets)),
          (''sewerage_pct'', VNum sewerage_pct),
          (''toilet_pct'', VNum toilet_pct)]))))))"

definition dh_get_water_stats :: "store \<Rightarrow> error + stats" where
  "dh_get_water_stats datasets =
     ebind (lookup datasets ''water'') (\<lambda>d.
       case d of
         None \<Rightarrow> Inr []
       | Some df \<Rightarrow> if frame_empty df then Inr [] else dh_water_stats df)"

text \<open>
  \<^verbatim>\<open>
  pm25 = df['Monthly mean/average concentration - PM2.5'].apply(clean_numeric).mean()
  ...
  return {'pm25_avg': round(pm25, 1) if not np.isnan(pm25) else 0, ...}
  \<close>
\<close>

definition dh_clean_mean :: "frame \<Rightarrow> string \<Rightarrow> error + number" where
  "dh_clean_mean df c =
     ebind (getitem df c) (\<lambda>cs. Inr (mean_skipna (map dh_clean_numeric cs)))"

definition dh_round_or_zero :: "nat \<Rightarrow> number \<Rightarrow> pynum" where
  "dh_round_or_zero n m = (if \<not> isna m then PyFloat (np_round n m) else PyInt 0)"

definition dh_environment_stats :: "frame \<Rightarrow> error + stats" where
  "dh_environment_stats df =
     ebind (dh_clean_mean df ''Monthly mean/average concentration - PM2.5'') (\<lambda>pm25.
     ebind (dh_clean_mean df ''Monthly mean concentration - PM10'') (\<lambda>pm10.
     ebind (dh_clean_mean df ''Monthly mean concentration - NO2'') (\<lambda>no2.
     Inr [(''pm25_avg'', VNum (dh_round_or_zero 1 pm25)),
          (''pm10_avg'', VNum (dh_round_or_zero 1 pm10)),
          (''no2_avg'', VNum (dh_round_or_zero 2 no2))])))"

definition dh_get_environment_stats :: "store \<Rightarrow> error + stats" where
  "dh_get_environment_stats datasets =
     ebind (lookup datasets ''environment'') (\<lambda>d.
       case d of
         None \<Rightarrow> Inr []
       | Some df \<Rightarrow> if frame_empty df then Inr [] else dh_environment_stats df)"

text \<open>
  \<^verbatim>\<open>return df[['Year', 'Total number of crimes recorded']].sort_values('Year')\<close>
\<close>

definition dh_get_crime_data :: "store \<Rightarrow> error + frame option" where
  "dh_get_crime_data datasets =
     ebind (lookup datasets ''crimes'') (\<lambda>d.
       case d of
         None \<Rightarrow> Inr None
       | Some df \<Rightarrow>
           if frame_empty df then Inr None
           else ebind (crimes_trend df) (\<lambda>result. Inr (Some result)))"

definition dh_infrastructure_stats :: "frame \<Rightarrow> error + stats" where
  "dh_infrastructure_stats df =
     ebind (int_sum df ''No. of intersections / junctions'') (\<lambda>total.
     ebind (int_sum df ''Total number of operational signalized intersections'') (\<lambda>signalized.
     ebind (dh_pct 1 signalized total) (\<lambda>signalization_pct.
     Inr [(''total_intersections'', VNum (PyInt total)),
          (''signalized_intersections'', VNum (PyInt signalized)),
          (''signalization_pct'', VNum signalization_pct)])))"

definition dh_get_infrastructure_stats :: "store \<Rightarrow> error + stats" where
  "dh_get_infrastructure_stats datasets =
     ebind (lookup datasets ''infrastructure'') (\<lambda>d.
       case d of
         None \<Rightarrow> Inr []
       | Some df \<Rightarrow> if frame_empty df then Inr [] else dh_infrastructure_stats df)"

text \<open>
  \<^verbatim>\<open>
  row = df.iloc[0]
  unemployed = int(row['No. of unemployed persons (seeking or available for work)'])
  employed = int(row['No. of employed persons'])
  labour_force = int(row['Total labour force in the city (age 15-59) [Employed + ...)'])
  return {
      'labour_force': labour_force, 'employed': employed, 'unemployed': unemployed,
      'unemployment_rate':
          round((unemployed / labour_force) * 100, 2) if labour_force > 0 else 0
  }
  \<close>
\<close>

definition dh_employment_stats :: "frame \<Rightarrow> error + stats" where
  "dh_employment_stats df =
     ebind (iloc0 df) (\<lambda>row.
     ebind (ebind (row_get df row ''No. of unemployed persons (seeking or available for work)'')
              cell_int) (\<lambda>unemployed.
     ebind (ebind (row_get df row ''No. of employed persons'') cell_int) (\<lambda>employed.
     ebind (ebind (row_get df row
              ''Total labour force in the city (age 15-59) [Employed + Unemployed Persons)'')
              cell_int) (\<lambda>labour_force.
     ebind (dh_pct 2 unemployed labour_force) (\<lambda>unemployment_rate.
     Inr [(''labour_force'', VNum (PyInt labour_force)),
          (''employed'', VNum (PyInt employed)),
          (''unemployed'', VNum (PyInt unemployed)),
          (''unemployment_rate'', VNum unemployment_rate)])))))"

definition dh_get_employment_stats :: "store \<Rightarrow> error + stats" where
  "dh_get_employment_stats datasets =
     ebind (lookup datasets ''employment'') (\<lambda>d.
       case d of
         None \<Rightarrow> Inr []
       | Some df \<Rightarrow> if frame_empty df then Inr [] else dh_employment_stats df)"

text \<open>
  \<^verbatim>\<open>
  def get_zone_data(self, dataset, value_col):
      df = self.datasets[dataset]
      if df is None or df.empty or 'Zone Name' not in df.columns:
          return None
      try:
          result = df.groupby('Zone Name')[value_col].sum().reset_index()
          result.columns = ['Zone', 'Value']
          return result.sort_values('Value', ascending=False)
      except:
          return None
  \<close>
\<close>

definition dh_get_zone_data :: "store \<Rightarrow> string \<Rightarrow> string \<Rightarrow> error + frame option" where
  "dh_get_zone_data datasets dataset value_col =
     ebind (lookup datasets dataset) (\<lambda>d.
       case d of
         None \<Rightarrow> Inr None
       | Some df \<Rightarrow>
           if frame_empty df \<or> ''Zone Name'' \<notin> set (columns df) then Inr None
           else case grouped_sorted df ''Zone Name'' value_col ''Zone'' of
                  Inl e \<Rightarrow> Inr None
                | Inr result \<Rightarrow> Inr (Some result))"

section \<open>Example tables\<close>

text \<open>An employment table whose single row has five unemployed and a labour force of 0.\<close>

definition employment_zero :: frame where
  "employment_zero =
     \<lparr>columns =
        [''No. of unemployed persons (seeking or available for work)'',
         ''No. of employed persons'',
         ''Total labour force in the city (age 15-59) [Employed + Unemployed Persons)''],
      rows =
        [(\<lambda>c. Num NaN)
           (''No. of unemployed persons (seeking or available for work)'' := Num (Fin 5),
            ''No. of employed persons'' := Num (Fin 0),
            ''Total labour force in the city (age 15-59) [Employed + Unemployed Persons)'' :=
              Num (Fin 0))]\<rparr>"

text \<open>The same table with the labour force missing.\<close>

definition employment_missing :: frame where
  "employment_missing =
     \<lparr>columns =
        [''No. of unemployed persons (seeking or available for work)'',
         ''No. of employed persons'',
         ''Total labour force in the city (age 15-59) [Employed + Unemployed Persons)''],
      rows =
        [(\<lambda>c. Num NaN)
           (''No. of unemployed persons (seeking or available for work)'' := Num (Fin 5),
            ''No. of employed persons'' := Num (Fin 0))]\<rparr>"

text \<open>Air-quality tables: the columns of the file and a row of readings.\<close>

definition environment_columns :: "string list" where
  "environment_columns =
     [''Month -Year'',
      ''Monthly mean/average concentration - PM2.5'',
      ''Monthly mean concentration - PM10'',
      ''Monthly mean concentration - NO2'',
      ''Monthly mean concentration - SO2'',
      ''Monthly mean concentration - O3'']"

definition environment_row :: "string \<Rightarrow> cell \<Rightarrow> cell \<Rightarrow> cell \<Rightarrow> cell \<Rightarrow> cell \<Rightarrow> row" where
  "environment_row month pm25 pm10 no2 so2 o3 =
     (\<lambda>c. Num NaN)
       (''Month -Year'' := Str month,
        ''Monthly mean/average concentration - PM2.5'' := pm25,
        ''Monthly mean concentration - PM10'' := pm10,
        ''Monthly mean concentration - NO2'' := no2,
        ''Monthly mean concentration - SO2'' := so2,
        ''Monthly mean concentration - O3'' := o3)"

text \<open>One month.\<close>

definition environment_one :: frame where
  "environment_one =
     \<lparr>columns = environment_columns,
      rows = [environment_row ''Jan-2020'' (Num (Fin 40)) (Num (Fin 90)) (Num (Fin 20))
                (Num (Fin 10)) (Num (Fin 30))]\<rparr>"

text \<open>Three months with the PM2.5 readings "10", "NA" and "20".\<close>

definition environment_three :: frame where
  "environment_three =
     \<lparr>columns = environment_columns,
      rows = [environment_row ''Jan-2020'' (Str ''10'') (Num (Fin 90)) (Num (Fin 20))
                (Num (Fin 10)) (Num (Fin 30)),
              environment_row ''Feb-2020'' (Str ''NA'') (Num (Fin 80)) (Num (Fin 22))
                (Num (Fin 12)) (Num (Fin 32)),
              environment_row ''Mar-2020'' (Str ''20'') (Num (Fin 70)) (Num (Fin 24))
                (Num (Fin 14)) (Num (Fin 34))]\<rparr>"

text \<open>Two months, the later one first.\<close>

definition environment_unordered :: frame where
  "environment_unordered =
     \<lparr>columns = environment_columns,
      rows = [environment_row ''Mar-2020'' (Num (Fin 50)) (Num (Fin 70)) (Num (Fin 24))
                (Num (Fin 14)) (Num (Fin 34)),
              environment_row ''Jan-2020'' (Num (Fin 40)) (Num (Fin 90)) (Num (Fin 20))
                (Num (Fin 10)) (Num (Fin 30))]\<rparr>"

text \<open>The crimes of the years 2019, 2021 and 2020, in this order.\<close>

definition crimes_row :: "rat \<Rightarrow> rat \<Rightarrow> row" where
  "crimes_row year recorded =
     (\<lambda>c. Num NaN)(''Year'' := Num (Fin year),
                    ''Total number of crimes recorded'' := Num (Fin recorded))"

definition crimes_example :: frame where
  "crimes_example =
     \<lparr>columns = [''Year'', ''Total number of crimes recorded''],
      rows = [crimes_row 2019 100, crimes_row 2021 300, crimes_row 2020 200]\<rparr>"

text \<open>A table of wards, without the column of the households.\<close>

definition ward_row :: "string \<Rightarrow> string \<Rightarrow> rat \<Rightarrow> row" where
  "ward_row zone ward toilets =
     (\<lambda>c. Num NaN)(''Zone Name'' := Str zone, ''Ward Name'' := Str ward,
                    ''Number of Public Toilet '' := Num (Fin toilets))"

definition wards_example :: frame where
  "wards_example =
     \<lparr>columns = [''Zone Name'', ''Ward Name'', ''Number of Public Toilet ''],
      rows = [ward_row ''Z1'' ''W1'' 3, ward_row ''Z1'' ''W2'' 5,
              ward_row ''Z2'' ''W1'' 4, ward_row ''Z2'' ''W3'' 1]\<rparr>"

text \<open>The table without rows and columns.\<close>

definition empty_frame :: frame where
  "empty_frame = \<lparr>columns = [], rows = []\<rparr>"

text \<open>The result of a query, as the pairs of two of its columns.\<close>

definition result_pairs :: "string \<Rightarrow> string \<Rightarrow> error + frame option \<Rightarrow> (cell \<times> cell) list" where
  "result_pairs c1 c2 res =
     (case res of Inr (Some t) \<Rightarrow> frame_pairs c1 c2 t | _ \<Rightarrow> [])"

section \<open>Evaluation helpers\<close>

lemma floor_rat_numeral [simp]:
  "\<lfloor>numeral a / numeral b :: rat\<rfloor> = numeral a div numeral b"
  by (metis floor_divide_of_int_eq of_int_numeral)

lemma floor_rat_neg_numeral [simp]:
  "\<lfloor>- (numeral a / numeral b) :: rat\<rfloor> = - numeral a div numeral b"
  by (metis divide_minus_left floor_divide_of_int_eq of_int_neg_numeral of_int_numeral)

lemma floor_rat_one_numeral [simp]: "\<lfloor>1 / numeral b :: rat\<rfloor> = 1 div numeral b"
  by (metis floor_divide_of_int_eq of_int_1 of_int_numeral)

lemma floor_rat_neg_one_numeral [simp]: "\<lfloor>- (1 / numeral b) :: rat\<rfloor> = - 1 div numeral b"
  by (metis divide_minus_left floor_divide_of_int_eq of_int_1 of_int_minus of_int_numeral)

lemma ceiling_rat_numeral [simp]:
  "\<lceil>numeral a / numeral b :: rat\<rceil> = - (- numeral a div numeral b)"
  by (simp add: ceiling_def)

lemma ceiling_rat_neg_numeral [simp]:
  "\<lceil>- (numeral a / numeral b) :: rat\<rceil> = - (numeral a div numeral b)"
  by (simp add: ceiling_def)

lemma ceiling_rat_one_numeral [simp]: "\<lceil>1 / numeral b :: rat\<rceil> = - (- 1 div numeral b)"
  by (simp add: ceiling_def)

lemma bit_length_0: "bit_length 0 = 0"
  by (simp add: bit_length.simps)

lemma bit_length_1: "bit_length 1 = 1"
  by (simp add: bit_length.simps)

lemma bit_length_Suc_0: "bit_length (Suc 0) = 1"
  by (simp add: bit_length.simps)

lemma bit_length_numeral: "bit_length (numeral k) = Suc (bit_length (numeral k div 2))"
  by (subst bit_length.simps) simp

lemma round_half_even_of_int [simp]: "round_half_even (of_int k) = k"
  by (simp add: round_half_even_def)

lemma round_half_even_zero [simp]: "round_half_even 0 = 0"
  using round_half_even_of_int [of 0] by simp

lemma round_half_even_numeral [simp]: "round_half_even (numeral k) = numeral k"
  using round_half_even_of_int [of "numeral k"] by simp

lemma round_half_even_neg_numeral [simp]: "round_half_even (- numeral k) = - numeral k"
  using round_half_even_of_int [of "- numeral k"] by simp

lemma float_round_zero [simp]: "float_round 0 = Fin 0"
  by (simp add: float_round_def)

lemmas binary64_defs =
  float_round_def ilog2_def pow2_def round_half_even_def Let_def
  bit_length_0 bit_length_1 bit_length_Suc_0 bit_length_numeral

text \<open>Integers below \<open>2 ^ 53\<close> are binary64 numbers: rounding leaves them as they are.\<close>

lemma bit_length_bounds:
  "0 < n \<Longrightarrow> 2 ^ (bit_length n - 1) \<le> n \<and> n < 2 ^ bit_length n"
proof (induction n rule: bit_length.induct)
  case (1 n)
  show ?case
  proof (cases "n div 2 = 0")
    case True
    with 1 have "n = 1" by presburger
    then show ?thesis by (simp add: bit_length.simps)
  next
    case False
    let ?m = "n div 2"
    from False have m: "0 < ?m" by simp
    from 1 have n: "n \<noteq> 0" by simp
    from 1(1) [OF n m] have lo: "2 ^ (bit_length ?m - 1) \<le> ?m" and hi: "?m < 2 ^ bit_length ?m"
      by simp_all
    have bl: "bit_length n = Suc (bit_length ?m)"
      using n by (subst bit_length.simps) simp
    have pos: "0 < bit_length ?m"
      using m by (subst bit_length.simps) simp
    then obtain b where b: "bit_length ?m = Suc b" by (cases "bit_length ?m") auto
    have "2 ^ (bit_length n - 1) = 2 * (2::nat) ^ (bit_length ?m - 1)"
      by (simp add: bl b)
    also have "\<dots> \<le> 2 * ?m" using lo by simp
    also have "\<dots> \<le> n" by simp
    finally have a: "2 ^ (bit_length n - 1) \<le> n" .
    have "n < 2 * ?m + 2" by presburger
    also have "\<dots> \<le> 2 * 2 ^ bit_length ?m" using hi by simp
    also have "\<dots> = 2 ^ bit_length n" by (simp add: bl)
    finally have c: "n < 2 ^ bit_length n" .
    from a c show ?thesis ..
  qed
qed

lemma float_round_pos_int:
  assumes k: "0 < k" and small: "k < 2 ^ p" and p: "p \<le> 53"
  shows "float_round (of_int k) = Fin (of_int k)"
proof -
  let ?n = "nat k"
  let ?b = "bit_length ?n"
  have n: "0 < ?n" using k by simp
  from bit_length_bounds [OF n] have lo: "2 ^ (?b - 1) \<le> ?n" and hi: "?n < 2 ^ ?b"
    by simp_all
  have "?n < 2 ^ p" using small k by (simp add: nat_less_iff)
  with lo have "(2::nat) ^ (?b - 1) < 2 ^ p" by (rule le_less_trans)
  then have "?b - 1 < p" by simp
  with p have b53: "?b \<le> 53" by simp
  have bpos: "0 < ?b" using hi n by (cases "?b") auto
  have il: "ilog2 (of_int k) = int ?b - 1"
    using k by (simp add: ilog2_def)
  define s where "s = 53 - ?b"
  have e: "max (int ?b - 1) (- 1022) = int ?b - 1" using bpos by simp
  have "nat (- (int ?b - 1 - 52)) = s" using b53 by (simp add: s_def)
  then have q: "pow2 (int ?b - 1 - 52) = 1 / 2 ^ s"
    using b53 by (cases "?b = 53") (simp_all add: pow2_def s_def)
  have r: "round_half_even (of_int k / (1 / 2 ^ s)) = k * 2 ^ s"
  proof -
    have "(of_int k :: rat) / (1 / 2 ^ s) = of_int (k * 2 ^ s)" by simp
    then show ?thesis by (simp only: round_half_even_of_int)
  qed
  have y: "(of_int (k * 2 ^ s) :: rat) * (1 / 2 ^ s) = of_int k" by simp
  have big: "\<not> pow2 1024 \<le> (of_int k :: rat)"
  proof -
    have "(of_int k :: rat) < of_int (2 ^ p)" using small by (simp only: of_int_less_iff)
    then have "(of_int k :: rat) < 2 ^ p" by simp
    also have "(2::rat) ^ p \<le> 2 ^ 1024" using p by (intro power_increasing) simp_all
    finally show ?thesis by (simp add: pow2_def)
  qed
  have ne: "(of_int k :: rat) \<noteq> 0" and ab: "\<bar>of_int k :: rat\<bar> = of_int k"
    and pos: "0 < (of_int k :: rat)"
    using k by simp_all
  show ?thesis
    unfolding float_round_def Let_def ab il e q r y using ne big pos by simp
qed

lemma float_round_int:
  assumes "\<bar>k\<bar> < 2 ^ 53"
  shows "float_round (of_int k) = Fin (of_int k)"
proof -
  consider "k = 0" | "0 < k" | "k < 0" by linarith
  then show ?thesis
  proof cases
    case 1 then show ?thesis by simp
  next
    case 2
    with assms have "k < 2 ^ 53" by simp
    with 2 show ?thesis by (rule float_round_pos_int) simp
  next
    case 3
    with assms have "0 < - k" "- k < 2 ^ 53" by simp_all
    then have "float_round (of_int (- k)) = Fin (of_int (- k))"
      by (rule float_round_pos_int) simp
    then show ?thesis using 3
      by (simp add: float_round_def Let_def split: if_splits)
  qed
qed

lemma float_round_numeral [simp]:
  "(numeral n :: int) < 9007199254740992 \<Longrightarrow> float_round (numeral n) = Fin (numeral n)"
  using float_round_int [of "numeral n"] by simp

lemma float_round_neg_numeral [simp]:
  "(numeral n :: int) < 9007199254740992 \<Longrightarrow> float_round (- numeral n) = Fin (- numeral n)"
  using float_round_int [of "- numeral n"] by simp

lemma float_round_one [simp]: "float_round 1 = Fin 1"
  using float_round_int [of 1] by simp

text \<open>Parsing: the sentinels of \<^verbatim>\<open>clean_numeric\<close> as \<^verbatim>\<open>float\<close> sees them.\<close>

lemmas float_defs = py_float_str_def strip_def split_sign_def is_space_def upper_def upper_char_def
  parse_decimal_def parse_exponent_def is_digit_def digits_val_def Let_def

lemma upper_char_N: "upper_char c = CHR ''N'' \<longleftrightarrow> c = CHR ''N'' \<or> c = CHR ''n''"
  by (auto simp: upper_char_def)
lemma upper_char_A: "upper_char c = CHR ''A'' \<longleftrightarrow> c = CHR ''A'' \<or> c = CHR ''a''"
  by (auto simp: upper_char_def)

lemma upper_NA: "upper s = ''NA'' \<Longrightarrow> s \<in> set [''NA'', ''Na'', ''nA'', ''na'']"
  by (auto simp: upper_def map_eq_Cons_conv upper_char_N upper_char_A)

lemma upper_NAN:
  "upper s = ''NAN'' \<Longrightarrow>
     s \<in> set [''NAN'', ''NAn'', ''NaN'', ''Nan'', ''nAN'', ''nAn'', ''naN'', ''nan'']"
  by (auto simp: upper_def map_eq_Cons_conv upper_char_N upper_char_A)

lemma py_float_str_NA: "upper s = ''NA'' \<Longrightarrow> py_float_str s = None"
  by (drule upper_NA) (auto simp: float_defs)

lemma py_float_str_NAN: "upper s = ''NAN'' \<Longrightarrow> py_float_str s = Some NaN"
  by (drule upper_NAN) (auto simp: float_defs)

lemma clean_numeric_py_float:
  "clean_numeric v = (case py_float v of Inl e \<Rightarrow> NaN | Inr x \<Rightarrow> x)"
  by (cases v) (auto simp: clean_numeric_def py_float_str_NA py_float_str_NAN)

lemma dh_clean_numeric_eq: "dh_clean_numeric v = clean_numeric v"
  by (cases v) (auto simp: dh_clean_numeric_def notna_def clean_numeric_py_float)

section \<open>Columns of cleaned readings\<close>

lemma numbers_map_Num: "numbers (map (\<lambda>x. Num (f x)) xs) = Inr (map f xs)"
  by (induction xs) simp_all

lemma series_mean_map_Num:
  "series_mean (map (\<lambda>x. Num (f x)) xs) = Inr (mean_skipna (map f xs))"
  by (simp add: series_mean_def numbers_map_Num)

lemma map_upd_zip: "map (\<lambda>(r, v). r(c := v)) (zip rs (map f rs)) = map (\<lambda>r. r(c := f r)) rs"
  by (induction rs) simp_all

lemma clean_column_ok:
  assumes "src \<in> set (columns env)"
  shows "clean_column env dst src =
     Inr \<lparr>columns = (if dst \<in> set (columns env) then columns env else columns env @ [dst]),
          rows = map (\<lambda>r. r(dst := Num (clean_numeric (r src)))) (rows env)\<rparr>"
proof -
  have "map (\<lambda>(r, v). r(dst := v))
          (zip (rows env) (map (\<lambda>c. Num (clean_numeric c)) (map (\<lambda>r. r src) (rows env))))
        = map (\<lambda>r. r(dst := Num (clean_numeric (r src)))) (rows env)"
    using map_upd_zip [of dst "rows env" "\<lambda>r. Num (clean_numeric (r src))"]
    by (simp add: o_def)
  with assms show ?thesis
    by (simp add: clean_column_def getitem_def ebind_def assign_def)
qed

text \<open>The update of a row that a run of cleaning statements makes.\<close>

lemma clean_columns_ok:
  assumes "list_all (\<lambda>c. c \<in> set (columns env)) (map snd ps)"
  shows "\<exists>env'. clean_columns env ps = (None, env')
     \<and> set (columns env') = set (columns env) \<union> set (map fst ps)
     \<and> rows env' =
         map (\<lambda>r. foldl (\<lambda>r (dst, src). r(dst := Num (clean_numeric (r src)))) r ps) (rows env)"
  using assms
proof (induction ps arbitrary: env)
  case Nil
  then show ?case by simp
next
  case (Cons p ps)
  obtain dst src where p: "p = (dst, src)" by (cases p)
  let ?env1 = "\<lparr>columns = (if dst \<in> set (columns env) then columns env else columns env @ [dst]),
          rows = map (\<lambda>r. r(dst := Num (clean_numeric (r src)))) (rows env)\<rparr>"
  from Cons.prems p have src: "src \<in> set (columns env)" by simp
  have c1: "clean_column env dst src = Inr ?env1" using src by (rule clean_column_ok)
  have "list_all (\<lambda>c. c \<in> set (columns ?env1)) (map snd ps)"
    using Cons.prems by (auto simp: list_all_iff)
  from Cons.IH [OF this] obtain env' where
    a: "clean_columns ?env1 ps = (None, env')"
    and b: "set (columns env') = set (columns ?env1) \<union> set (map fst ps)"
    and c: "rows env' =
         map (\<lambda>r. foldl (\<lambda>r (dst, src). r(dst := Num (clean_numeric (r src)))) r ps)
           (rows ?env1)"
    by blast
  have "clean_columns env (p # ps) = (None, env')" using a c1 p by simp
  moreover have "set (columns env') = set (columns env) \<union> set (map fst (p # ps))"
    using b p by auto
  moreover have "rows env' =
         map (\<lambda>r. foldl (\<lambda>r (dst, src). r(dst := Num (clean_numeric (r src)))) r (p # ps))
           (rows env)"
    using c p by (simp add: o_def)
  ultimately show ?case by blast
qed

section \<open>Coverage ratio\<close>

text \<open>
  C1 (as amended). \<^verbatim>\<open>calculate_coverage\<close> returns 0 when the denominator is zero or
  missing (NaN). For every other denominator, a negative one included, it computes
  \<^verbatim>\<open>round(numerator / denominator * 100, 2)\<close> in binary64 arithmetic: on two ints the
  quotient is rounded to the nearest float (OverflowError when it is beyond the range of
  float), then multiplied by 100 and rounded to two decimals. In particular
  \<^verbatim>\<open>calculate_coverage(n, 0) = 0\<close> for every n, \<^verbatim>\<open>calculate_coverage(0, d) = 0.0\<close> for every
  int \<open>d \<noteq> 0\<close>, \<^verbatim>\<open>calculate_coverage(50, 200) = 25.0\<close>, and the ratios 1/3, 2/3, 1/32, 1/4000
  and 3/4000 give 33.33, 66.67, 3.12, 0.03 and 0.07.
\<close>

theorem C1_calculate_coverage:
  "(py_is_zero d \<or> py_isna d \<longrightarrow> calculate_coverage n d = Inr (PyInt 0))
   \<and> (b \<noteq> 0 \<longrightarrow>
      calculate_coverage (PyInt a) (PyInt b) =
        (case float_round (of_int a / of_int b) of
           Fin q \<Rightarrow> Inr (PyFloat (py_round 2 (num_mul (Fin q) (Fin 100))))
         | _ \<Rightarrow> Inl OverflowError))
   \<and> (y \<noteq> Fin 0 \<and> y \<noteq> NaN \<longrightarrow>
      calculate_coverage (PyFloat x) (PyFloat y) =
        Inr (PyFloat (py_round 2 (num_mul (np_truediv x y) (Fin 100)))))
   \<and> calculate_coverage n (PyInt 0) = Inr (PyInt 0)
   \<and> (b \<noteq> 0 \<longrightarrow> calculate_coverage (PyInt 0) (PyInt b) = Inr (PyFloat (Fin 0)))
   \<and> calculate_coverage (PyInt 50) (PyInt 200) = Inr (PyFloat (Fin 25))
   \<and> calculate_coverage (PyInt 1) (PyInt 3) = Inr (PyFloat (float_round (3333 / 100)))
   \<and> calculate_coverage (PyInt 2) (PyInt 3) = Inr (PyFloat (float_round (6667 / 100)))
   \<and> calculate_coverage (PyInt 1) (PyInt 32) = Inr (PyFloat (float_round (312 / 100)))
   \<and> calculate_coverage (PyInt 1) (PyInt 4000) = Inr (PyFloat (float_round (3 / 100)))
   \<and> calculate_coverage (PyInt 3) (PyInt 4000) = Inr (PyFloat (float_round (7 / 100)))
   \<and> calculate_coverage (PyInt (10 ^ 400)) (PyInt 1) = Inl OverflowError"
proof -
  have g: "py_is_zero d \<or> py_isna d \<longrightarrow> calculate_coverage n d = Inr (PyInt 0)"
    by (simp add: calculate_coverage_def)
  have i: "b \<noteq> 0 \<longrightarrow>
      calculate_coverage (PyInt a) (PyInt b) =
        (case float_round (of_int a / of_int b) of
           Fin q \<Rightarrow> Inr (PyFloat (py_round 2 (num_mul (Fin q) (Fin 100))))
         | _ \<Rightarrow> Inl OverflowError)"
    by (simp add: calculate_coverage_def ebind_def finite_or_overflow_def split: number.splits)
  have f: "y \<noteq> Fin 0 \<and> y \<noteq> NaN \<longrightarrow>
      calculate_coverage (PyFloat x) (PyFloat y) =
        Inr (PyFloat (py_round 2 (num_mul (np_truediv x y) (Fin 100))))"
    by (simp add: calculate_coverage_def ebind_def isna_def)
  have z: "calculate_coverage n (PyInt 0) = Inr (PyInt 0)"
    by (simp add: calculate_coverage_def)
  have n0: "b \<noteq> 0 \<longrightarrow> calculate_coverage (PyInt 0) (PyInt b) = Inr (PyFloat (Fin 0))"
    by (simp add: calculate_coverage_def ebind_def finite_or_overflow_def)
  have e1_q: "float_round (1 / 4) = Fin (1 / 4)"
    by (simp add: binary64_defs)
  have e1_m: "num_mul (Fin (1 / 4)) (Fin 100) = Fin 25"
    by (simp add: binary64_defs)
  have e1_r: "py_round 2 (Fin 25) = Fin 25"
    by (simp add: binary64_defs)
  have e1: "calculate_coverage (PyInt 50) (PyInt 200) = Inr (PyFloat (Fin 25))"
    using e1_q e1_m e1_r
    by (simp add: calculate_coverage_def ebind_def finite_or_overflow_def)
  have e2_q: "float_round (1 / 3) = Fin (6004799503160661 / 18014398509481984)"
    by (simp add: binary64_defs)
  have e2_m: "num_mul (Fin (6004799503160661 / 18014398509481984)) (Fin 100) = Fin (2345624805922133 / 70368744177664)"
    by (simp add: binary64_defs)
  have e2_r: "py_round 2 (Fin (2345624805922133 / 70368744177664)) = Fin (2345390243441541 / 70368744177664)"
    by (simp add: binary64_defs)
  have e2_l: "float_round (3333 / 100) = Fin (2345390243441541 / 70368744177664)"
    by (simp add: binary64_defs)
  have e2: "calculate_coverage (PyInt 1) (PyInt 3) = Inr (PyFloat (float_round (3333 / 100)))"
    using e2_q e2_m e2_r e2_l
    by (simp add: calculate_coverage_def ebind_def finite_or_overflow_def)
  have e3_q: "float_round (2 / 3) = Fin (6004799503160661 / 9007199254740992)"
    by (simp add: binary64_defs)
  have e3_m: "num_mul (Fin (6004799503160661 / 9007199254740992)) (Fin 100) = Fin (2345624805922133 / 35184372088832)"
    by (simp add: binary64_defs)
  have e3_r: "py_round 2 (Fin (2345624805922133 / 35184372088832)) = Fin (4691484174324859 / 70368744177664)"
    by (simp add: binary64_defs)
  have e3_l: "float_round (6667 / 100) = Fin (4691484174324859 / 70368744177664)"
    by (simp add: binary64_defs)
  have e3: "calculate_coverage (PyInt 2) (PyInt 3) = Inr (PyFloat (float_round (6667 / 100)))"
    using e3_q e3_m e3_r e3_l
    by (simp add: calculate_coverage_def ebind_def finite_or_overflow_def)
  have e4_q: "float_round (1 / 32) = Fin (1 / 32)"
    by (simp add: binary64_defs)
  have e4_m: "num_mul (Fin (1 / 32)) (Fin 100) = Fin (25 / 8)"
    by (simp add: binary64_defs)
  have e4_r: "py_round 2 (Fin (25 / 8)) = Fin (3512807709348987 / 1125899906842624)"
    by (simp add: binary64_defs)
  have e4_l: "float_round (78 / 25) = Fin (3512807709348987 / 1125899906842624)"
    by (simp add: binary64_defs)
  have e4: "calculate_coverage (PyInt 1) (PyInt 32) = Inr (PyFloat (float_round (312 / 100)))"
    using e4_q e4_m e4_r e4_l
    by (simp add: calculate_coverage_def ebind_def finite_or_overflow_def)
  have e5_q: "float_round (1 / 4000) = Fin (1152921504606847 / 4611686018427387904)"
    by (simp add: binary64_defs)
  have e5_m: "num_mul (Fin (1152921504606847 / 4611686018427387904)) (Fin 100) = Fin (3602879701896397 / 144115188075855872)"
    by (simp add: binary64_defs)
  have e5_r: "py_round 2 (Fin (3602879701896397 / 144115188075855872)) = Fin (1080863910568919 / 36028797018963968)"
    by (simp add: binary64_defs)
  have e5_l: "float_round (3 / 100) = Fin (1080863910568919 / 36028797018963968)"
    by (simp add: binary64_defs)
  have e5: "calculate_coverage (PyInt 1) (PyInt 4000) = Inr (PyFloat (float_round (3 / 100)))"
    using e5_q e5_m e5_r e5_l
    by (simp add: calculate_coverage_def ebind_def finite_or_overflow_def)
  have e6_q: "float_round (3 / 4000) = Fin (3458764513820541 / 4611686018427387904)"
    by (simp add: binary64_defs)
  have e6_m: "num_mul (Fin (3458764513820541 / 4611686018427387904)) (Fin 100) = Fin (5404319552844595 / 72057594037927936)"
    by (simp add: binary64_defs)
  have e6_r: "py_round 2 (Fin (5404319552844595 / 72057594037927936)) = Fin (1261007895663739 / 18014398509481984)"
    by (simp add: binary64_defs)
  have e6_l: "float_round (7 / 100) = Fin (1261007895663739 / 18014398509481984)"
    by (simp add: binary64_defs)
  have e6: "calculate_coverage (PyInt 3) (PyInt 4000) = Inr (PyFloat (float_round (7 / 100)))"
    using e6_q e6_m e6_r e6_l
    by (simp add: calculate_coverage_def ebind_def finite_or_overflow_def)
  have ov: "float_round (10 ^ 400) = PInf"
    by (simp add: binary64_defs)
  have e7: "calculate_coverage (PyInt (10 ^ 400)) (PyInt 1) = Inl OverflowError"
    using ov by (simp add: calculate_coverage_def ebind_def finite_or_overflow_def)
  show ?thesis
    by (intro conjI g i f z n0 e1 e2 e3 e4 e5 e6 e7)
qed

theorem C1_calculate_coverage_witness:
  "calculate_coverage (PyInt 7) (PyFloat NaN) = Inr (PyInt 0)
   \<and> calculate_coverage (PyInt 1) (PyInt (- 8)) = Inr (PyFloat (Fin (- (25 / 2))))
   \<and> calculate_coverage (PyFloat PInf) (PyFloat (Fin (- 4))) = Inr (PyFloat NInf)
   \<and> calculate_coverage (PyInt 0) (PyInt (- 8)) = Inr (PyFloat (Fin 0))"
proof -
  note t = C1_calculate_coverage [where d = "PyFloat NaN" and n = "PyInt 7" and a = 1
      and b = "- 8" and x = PInf and y = "Fin (- 4)"]
  have a: "calculate_coverage (PyInt 7) (PyFloat NaN) = Inr (PyInt 0)"
    using t [THEN conjunct1] by (simp add: isna_def)
  have w_q: "float_round (- (1 / 8)) = Fin (- (1 / 8))"
    by (simp add: binary64_defs)
  have w_m: "num_mul (Fin (- (1 / 8))) (Fin 100) = Fin (- (25 / 2))"
    by (simp add: binary64_defs)
  have w_r: "py_round 2 (Fin (- (25 / 2))) = Fin (- (25 / 2))"
    by (simp add: binary64_defs)
  have b: "calculate_coverage (PyInt 1) (PyInt (- 8)) = Inr (PyFloat (Fin (- (25 / 2))))"
    using t [THEN conjunct2, THEN conjunct1] w_q w_m w_r by simp
  have c: "calculate_coverage (PyFloat PInf) (PyFloat (Fin (- 4))) = Inr (PyFloat NInf)"
    using t [THEN conjunct2, THEN conjunct2, THEN conjunct1] by (simp add: inf_scaled_def)
  have d: "calculate_coverage (PyInt 0) (PyInt (- 8)) = Inr (PyFloat (Fin 0))"
    using t [THEN conjunct2, THEN conjunct2, THEN conjunct2, THEN conjunct2, THEN conjunct1]
    by simp
  show ?thesis by (intro conjI a b c d)
qed

text \<open>
  The claim as stated also promises 0 for a negative denominator; the guard tests only
  \<^verbatim>\<open>== 0\<close> and \<^verbatim>\<open>pd.isna\<close>, so \<^verbatim>\<open>calculate_coverage(50, -200)\<close> is \<open>-25.0\<close>.
\<close>

theorem C1_negative_denominator_counterexample:
  "(- 200 :: int) \<le> 0
   \<and> calculate_coverage (PyInt 50) (PyInt (- 200)) = Inr (PyFloat (Fin (- 25)))
   \<and> \<not> py_is_zero (PyFloat (Fin (- 25)))"
proof -
  have c_q: "float_round (- (1 / 4)) = Fin (- (1 / 4))"
    by (simp add: binary64_defs)
  have c_m: "num_mul (Fin (- (1 / 4))) (Fin 100) = Fin (- 25)"
    by (simp add: binary64_defs)
  have c_r: "py_round 2 (Fin (- 25)) = Fin (- 25)"
    by (simp add: binary64_defs)
  show ?thesis
    using c_q c_m c_r by (simp add: calculate_coverage_def ebind_def finite_or_overflow_def)
qed

section \<open>Cleaning of numeric readings\<close>

text \<open>
  C4. \<^verbatim>\<open>clean_numeric\<close> maps the strings that upper-case to NA or NAN, and every value
  that \<^verbatim>\<open>float\<close> cannot parse, to the missing value NaN; every other value is the
  number \<^verbatim>\<open>float\<close> parses it to. The variant nested in
  \<^verbatim>\<open>DataHandler.get_environment_stats\<close> computes the same function. In particular
  "NA", "nan" and "abc" are missing and "12.5" is 12.5.
\<close>

theorem C4_clean_numeric:
  "(upper s = ''NA'' \<or> upper s = ''NAN'' \<longrightarrow> clean_numeric (Str s) = NaN)
   \<and> (py_float v = Inl e \<longrightarrow> clean_numeric v = NaN)
   \<and> (py_float v = Inr x \<longrightarrow> clean_numeric v = x)
   \<and> dh_clean_numeric v = clean_numeric v
   \<and> clean_numeric (Str ''NA'') = NaN
   \<and> clean_numeric (Str ''nan'') = NaN
   \<and> clean_numeric (Str ''abc'') = NaN
   \<and> clean_numeric (Str ''12.5'') = Fin (25 / 2)"
proof -
  have a: "upper s = ''NA'' \<or> upper s = ''NAN'' \<longrightarrow> clean_numeric (Str s) = NaN"
    by (simp add: clean_numeric_def)
  have b: "py_float v = Inl e \<longrightarrow> clean_numeric v = NaN"
    and c: "py_float v = Inr x \<longrightarrow> clean_numeric v = x"
    by (simp_all add: clean_numeric_py_float)
  have d: "dh_clean_numeric v = clean_numeric v"
    by (cases v) (auto simp: dh_clean_numeric_def notna_def clean_numeric_py_float)
  have r: "float_round (25 / 2) = Fin (25 / 2)"
    by (simp add: binary64_defs)
  have e: "clean_numeric (Str ''NA'') = NaN" "clean_numeric (Str ''nan'') = NaN"
    "clean_numeric (Str ''abc'') = NaN" "clean_numeric (Str ''12.5'') = Fin (25 / 2)"
    using r by (simp_all add: clean_numeric_py_float float_defs)
  from a b c d e show ?thesis by blast
qed

theorem C4_clean_numeric_witness:
  "upper ''Na'' = ''NA'' \<and> clean_numeric (Str ''Na'') = NaN
   \<and> py_float (Str ''1.2.3'') = Inl ValueError \<and> clean_numeric (Str ''1.2.3'') = NaN
   \<and> py_float (Str '' -3e2 '') = Inr (Fin (- 300)) \<and> clean_numeric (Str '' -3e2 '') = Fin (- 300)
   \<and> dh_clean_numeric (Str ''N/A'') = NaN"
proof -
  have h1: "upper ''Na'' = ''NA''" by (simp add: upper_def upper_char_def)
  have h2: "py_float (Str ''1.2.3'') = Inl ValueError" by (simp add: float_defs)
  have r: "float_round (- 300) = Fin (- 300)" by (simp add: binary64_defs)
  have h3: "py_float (Str '' -3e2 '') = Inr (Fin (- 300))" using r by (simp add: float_defs)
  have h4: "py_float (Str ''N/A'') = Inl ValueError" by (simp add: float_defs)
  show ?thesis
    using h1 h2 h3 h4
      C4_clean_numeric [of "''Na''" "Str ''1.2.3''" ValueError "Fin 0"]
      C4_clean_numeric [of "''Na''" "Str '' -3e2 ''" ValueError "Fin (- 300)"]
      C4_clean_numeric [of "''Na''" "Str ''N/A''" ValueError "Fin 0"]
    by simp
qed

section \<open>Loading\<close>

lemma load_entry_cases:
  "load_entry fs p = (case fs p of NoFile \<Rightarrow> None | BadFile e \<Rightarrow> None | Csv df \<Rightarrow> Some df)"
  by (simp add: load_entry_def try_load_def path_exists_def read_csv_def ebind_def
      split: disk_file.splits)

lemma load_files_other:
  "k \<notin> fst ` set fl \<Longrightarrow> load_files fs dir fl data k = data k"
  by (induction fl arbitrary: data) auto

lemma load_files_entry:
  "distinct (map fst fl) \<Longrightarrow> (k, f) \<in> set fl \<Longrightarrow>
     load_files fs dir fl data k = Some (load_entry fs (path_join dir f))"
proof (induction fl arbitrary: data)
  case Nil
  then show ?case by simp
next
  case (Cons a fl)
  obtain k' f' where a: "a = (k', f')" by (cases a)
  show ?case
  proof (cases "(k, f) = a")
    case True
    with Cons.prems a have "k \<notin> fst ` set fl" by auto
    with True a show ?thesis by (simp add: load_files_other)
  next
    case False
    with Cons a show ?thesis by auto
  qed
qed

lemma dom_load_files: "dom (load_files fs dir fl data) = dom data \<union> fst ` set fl"
proof (induction fl arbitrary: data)
  case Nil
  then show ?case by simp
next
  case (Cons a fl)
  obtain k f where a: "a = (k, f)" by (cases a)
  have "dom (load_files fs dir (a # fl) data) =
      dom (data(k \<mapsto> load_entry fs (path_join dir f))) \<union> fst ` set fl"
    unfolding a load_files.simps by (rule Cons.IH)
  also have "\<dots> = dom data \<union> fst ` set (a # fl)"
    using a by auto
  finally show ?case .
qed

lemma distinct_files: "distinct (map fst files)" "distinct (map fst dh_files)"
  by (simp_all add: files_def dh_files_def)

lemma dom_dh_load_data:
  "dom (dh_load_data fs dir Map.empty) =
     {''water'', ''environment'', ''crimes'', ''infrastructure'', ''employment''}"
  unfolding dh_load_data_def dom_load_files by (simp add: dh_files_def)

text \<open>
  C9. \<^verbatim>\<open>load_all\<close> (and \<^verbatim>\<open>DataHandler.load_data\<close>) is total: no exception leaves it.
  Each of the five names gets an entry that depends on its own file alone: the table when
  the file exists and parses, and \<^verbatim>\<open>None\<close> when the file is missing or reading it raises,
  whatever happens to the other files. Names outside the five keep what they had, and
  starting from the empty dictionary the result has exactly the five names.
\<close>

theorem C9_load_all:
  "((key, filename) \<in> set files \<longrightarrow>
      load_all fs dir data key =
        Some (case fs (path_join dir filename) of
                NoFile \<Rightarrow> None | BadFile e \<Rightarrow> None | Csv df \<Rightarrow> Some df))
   \<and> ((key, filename) \<in> set dh_files \<longrightarrow>
      dh_load_data fs dir data key =
        Some (case fs (path_join dir filename) of
                NoFile \<Rightarrow> None | BadFile e \<Rightarrow> None | Csv df \<Rightarrow> Some df))
   \<and> (key \<notin> fst ` set files \<longrightarrow> load_all fs dir data key = data key)
   \<and> (key \<notin> fst ` set dh_files \<longrightarrow> dh_load_data fs dir data key = data key)
   \<and> dom (load_all fs dir Map.empty) =
       {''water_sanitation'', ''environment'', ''crimes'', ''intersections'', ''employment''}
   \<and> dom (dh_load_data fs dir Map.empty) =
       {''water'', ''environment'', ''crimes'', ''infrastructure'', ''employment''}"
proof -
  have a: "(key, filename) \<in> set files \<longrightarrow>
      load_all fs dir data key =
        Some (case fs (path_join dir filename) of
                NoFile \<Rightarrow> None | BadFile e \<Rightarrow> None | Csv df \<Rightarrow> Some df)"
    by (simp add: load_all_def load_files_entry [OF distinct_files(1)] load_entry_cases)
  have b: "(key, filename) \<in> set dh_files \<longrightarrow>
      dh_load_data fs dir data key =
        Some (case fs (path_join dir filename) of
                NoFile \<Rightarrow> None | BadFile e \<Rightarrow> None | Csv df \<Rightarrow> Some df)"
    by (simp add: dh_load_data_def load_files_entry [OF distinct_files(2)] load_entry_cases)
  have c: "key \<notin> fst ` set files \<longrightarrow> load_all fs dir data key = data key"
    by (simp add: load_all_def load_files_other)
  have d: "key \<notin> fst ` set dh_files \<longrightarrow> dh_load_data fs dir data key = data key"
    by (simp add: dh_load_data_def load_files_other)
  have e: "dom (load_all fs dir Map.empty) =
       {''water_sanitation'', ''environment'', ''crimes'', ''intersections'', ''employment''}"
    unfolding load_all_def dom_load_files by (simp add: files_def)
  have f: "dom (dh_load_data fs dir Map.empty) =
       {''water'', ''environment'', ''crimes'', ''infrastructure'', ''employment''}"
    unfolding dh_load_data_def dom_load_files by (simp add: dh_files_def)
  show ?thesis by (intro conjI a b c d e f)
qed

theorem C9_load_all_witness:
  "load_all
     (\<lambda>p. if p = ''d/unified_crimes.csv'' then Csv \<lparr>columns = [''Year''], rows = []\<rparr>
          else if p = ''d/unified_environment.csv'' then BadFile ValueError else NoFile)
     ''d'' Map.empty ''crimes'' = Some (Some \<lparr>columns = [''Year''], rows = []\<rparr>)
   \<and> dh_load_data
     (\<lambda>p. if p = ''d/unified_crimes.csv'' then Csv \<lparr>columns = [''Year''], rows = []\<rparr>
          else if p = ''d/unified_environment.csv'' then BadFile ValueError else NoFile)
     ''d'' Map.empty ''environment'' = Some None
   \<and> load_all (\<lambda>p. NoFile) ''d'' [''x'' \<mapsto> None] ''x'' = Some None
   \<and> dh_load_data (\<lambda>p. NoFile) ''d'' [''x'' \<mapsto> None] ''x'' = Some None"
proof -
  let ?fs = "\<lambda>p. if p = ''d/unified_crimes.csv'' then Csv \<lparr>columns = [''Year''], rows = []\<rparr>
          else if p = ''d/unified_environment.csv'' then BadFile ValueError else NoFile"
  have h1: "(''crimes'', ''unified_crimes.csv'') \<in> set files" by (simp add: files_def)
  have h2: "(''environment'', ''unified_environment.csv'') \<in> set dh_files"
    by (simp add: dh_files_def)
  have h3: "''x'' \<notin> fst ` set files" "''x'' \<notin> fst ` set dh_files"
    by (simp_all add: files_def dh_files_def)
  show ?thesis
    using h1 h2 h3
      C9_load_all [of "''crimes''" "''unified_crimes.csv''" ?fs "''d''" Map.empty,
        THEN conjunct1]
      C9_load_all [of "''environment''" "''unified_environment.csv''" ?fs "''d''" Map.empty,
        THEN conjunct2, THEN conjunct1]
      C9_load_all [of "''x''" "''f''" "\<lambda>p. NoFile" "''d''" "[''x'' \<mapsto> None]",
        THEN conjunct2, THEN conjunct2, THEN conjunct1]
      C9_load_all [of "''x''" "''f''" "\<lambda>p. NoFile" "''d''" "[''x'' \<mapsto> None]",
        THEN conjunct2, THEN conjunct2, THEN conjunct2, THEN conjunct1]
    by (simp add: path_join_def)
qed

text \<open>
  C10. \<^verbatim>\<open>DataHandler.get_zone_data\<close> indexes \<^verbatim>\<open>self.datasets\<close> before it tests for
  absence. After \<^verbatim>\<open>load_data\<close>, started by the constructor on the empty dictionary, the
  dictionary holds the five names only, so any other dataset name raises KeyError
  instead of returning \<^verbatim>\<open>None\<close>; for the five names the query never raises.
\<close>

theorem C10_get_zone_data_unknown_dataset:
  "(dataset \<notin> {''water'', ''environment'', ''crimes'', ''infrastructure'', ''employment''} \<longrightarrow>
      dh_get_zone_data (dh_load_data fs dir Map.empty) dataset value_col = Inl KeyError)
   \<and> (dataset \<in> {''water'', ''environment'', ''crimes'', ''infrastructure'', ''employment''} \<longrightarrow>
      (\<exists>r. dh_get_zone_data (dh_load_data fs dir Map.empty) dataset value_col = Inr r))"
proof -
  let ?names = "{''water'', ''environment'', ''crimes'', ''infrastructure'', ''employment''}"
  let ?datasets = "dh_load_data fs dir Map.empty"
  have dom: "dom ?datasets = ?names"
    by (rule dom_dh_load_data)
  have a: "dataset \<notin> ?names \<longrightarrow> dh_get_zone_data ?datasets dataset value_col = Inl KeyError"
  proof
    assume "dataset \<notin> ?names"
    then have "dataset \<notin> dom ?datasets" unfolding dom .
    then have "?datasets dataset = None" by (simp only: domIff not_not)
    then show "dh_get_zone_data ?datasets dataset value_col = Inl KeyError"
      by (simp add: dh_get_zone_data_def lookup_def ebind_def)
  qed
  have b: "dataset \<in> ?names \<longrightarrow> (\<exists>r. dh_get_zone_data ?datasets dataset value_col = Inr r)"
  proof
    assume "dataset \<in> ?names"
    then have "dataset \<in> dom ?datasets" unfolding dom .
    then obtain d where d: "?datasets dataset = Some d" by (auto simp only: domIff)
    show "\<exists>r. dh_get_zone_data ?datasets dataset value_col = Inr r"
      unfolding dh_get_zone_data_def lookup_def ebind_def d
      by (simp split: option.splits sum.splits)
  qed
  show ?thesis by (intro conjI a b)
qed

theorem C10_get_zone_data_unknown_dataset_witness:
  "dh_get_zone_data (dh_load_data (\<lambda>p. NoFile) ''d'' Map.empty) ''water_sanitation''
      ''Total number of households (HH)'' = Inl KeyError
   \<and> dh_get_zone_data (dh_load_data (\<lambda>p. NoFile) ''d'' Map.empty) ''water''
      ''Total number of households (HH)'' = Inr None"
proof -
  have r: "dh_get_zone_data (dh_load_data (\<lambda>p. NoFile) ''d'' Map.empty) ''water''
      ''Total number of households (HH)'' = Inr None"
    by (simp add: dh_get_zone_data_def dh_load_data_def dh_files_def lookup_def ebind_def
        load_entry_cases)
  show ?thesis
    using r C10_get_zone_data_unknown_dataset [of "''water_sanitation''" "\<lambda>p. NoFile" "''d''"
        "''Total number of households (HH)''", THEN conjunct1]
    by simp
qed

section \<open>Rates of the employment statistics\<close>

text \<open>
  C3. \<^verbatim>\<open>DashboardApp.get_employment_stats\<close> divides by the labour force without a
  guard. On a table whose labour force is 0 the unemployment rate is infinite and the
  employment rate is NaN, where the ratio policy asks for 0;
  \<^verbatim>\<open>DataHandler.get_employment_stats\<close> returns 0 on the same table. When the labour
  force is missing, both raise ValueError from \<^verbatim>\<open>int\<close>.
\<close>

theorem C3_employment_rates_unguarded:
  "get_employment_stats [''employment'' \<mapsto> Some employment_zero] =
     Inr [(''unemployed'', VNum (PyInt 5)), (''employed'', VNum (PyInt 0)),
          (''labour_force'', VNum (PyInt 0)),
          (''unemployment_rate'', VNum (PyFloat PInf)),
          (''employment_rate'', VNum (PyFloat NaN))]
   \<and> dh_get_employment_stats [''employment'' \<mapsto> Some employment_zero] =
     Inr [(''labour_force'', VNum (PyInt 0)), (''employed'', VNum (PyInt 0)),
          (''unemployed'', VNum (PyInt 5)), (''unemployment_rate'', VNum (PyInt 0))]
   \<and> get_employment_stats [''employment'' \<mapsto> Some employment_missing] = Inl ValueError
   \<and> dh_get_employment_stats [''employment'' \<mapsto> Some employment_missing] = Inl ValueError"
  by (simp add: get_employment_stats_def dh_get_employment_stats_def employment_stats_def
      dh_employment_stats_def employment_zero_def employment_missing_def lookup_def ebind_def
      frame_empty_def iloc0_def row_get_def dh_pct_def trunc_def inf_scaled_def np_round_def)

section \<open>Mutation of the stored tables\<close>

text \<open>
  C8. \<^verbatim>\<open>DashboardApp.get_environment_stats\<close> assigns its five cleaned columns to the
  table stored in \<^verbatim>\<open>self.data\<close>: after the call the stored air-quality table has five
  more columns than before, so the store is not what it was.
  (\<^verbatim>\<open>get_environment_trend\<close> makes the same assignments on a copy.)
\<close>

theorem C8_environment_stats_mutates_store:
  "(case snd (get_environment_stats [''environment'' \<mapsto> Some environment_one]) ''environment'' of
      Some (Some env) \<Rightarrow> columns env | _ \<Rightarrow> [])
     = columns environment_one @ [''PM2.5'', ''PM10'', ''NO2'', ''SO2'', ''O3'']
   \<and> snd (get_environment_stats [''environment'' \<mapsto> Some environment_one])
     \<noteq> [''environment'' \<mapsto> Some environment_one]
   \<and> fst (get_environment_stats [''environment'' \<mapsto> Some environment_one]) =
     Inr [(''pm25_avg'', VNum (PyFloat (Fin 40))), (''pm10_avg'', VNum (PyFloat (Fin 90))),
          (''no2_avg'', VNum (PyFloat (Fin 20))), (''so2_avg'', VNum (PyFloat (Fin 10))),
          (''o3_avg'', VNum (PyFloat (Fin 30)))]"
proof -
  let ?data = "[''environment'' \<mapsto> Some environment_one]"
  obtain res data' where r: "get_environment_stats ?data = (res, data')"
    by (cases "get_environment_stats ?data")
  have cols: "(case data' ''environment'' of Some (Some env) \<Rightarrow> columns env | _ \<Rightarrow> [])
     = columns environment_one @ [''PM2.5'', ''PM10'', ''NO2'', ''SO2'', ''O3'']"
    using r
    by (auto simp: get_environment_stats_def lookup_def frame_empty_def environment_one_def
        environment_columns_def environment_row_def
        pollutant_columns_def clean_column_def getitem_def assign_def ebind_def
        split: prod.splits option.splits)
  have res: "res =
     Inr [(''pm25_avg'', VNum (PyFloat (Fin 40))), (''pm10_avg'', VNum (PyFloat (Fin 90))),
          (''no2_avg'', VNum (PyFloat (Fin 20))), (''so2_avg'', VNum (PyFloat (Fin 10))),
          (''o3_avg'', VNum (PyFloat (Fin 30)))]"
    using r
    by (auto simp: get_environment_stats_def lookup_def frame_empty_def environment_one_def
        environment_columns_def environment_row_def
        pollutant_columns_def clean_column_def getitem_def assign_def ebind_def
        environment_means_def rounded_mean_def series_mean_def mean_skipna_def sum_skipna_def
        clean_numeric_def np_round_def
        split: prod.splits option.splits)
  have neq: "data' \<noteq> ?data"
  proof
    assume "data' = ?data"
    with cols show False by (simp add: environment_one_def environment_columns_def)
  qed
  from cols res neq r show ?thesis by simp
qed

section \<open>Queries on absent and empty tables\<close>

text \<open>
  The claim as stated also promises the sentinel when an expected column is missing. Only
  the grouping queries catch exceptions; a summary or a trend on a table that lacks a
  column raises KeyError: the ward table has no column of households and no column of
  years.
\<close>

theorem C2_missing_column_counterexample:
  "\<not> frame_empty wards_example
   \<and> get_water_sanitation_stats [''water_sanitation'' \<mapsto> Some wards_example] = Inl KeyError
   \<and> get_crimes_trend [''crimes'' \<mapsto> Some wards_example] = Inl KeyError
   \<and> dh_get_crime_data [''crimes'' \<mapsto> Some wards_example] = Inl KeyError"
  by (simp add: get_water_sanitation_stats_def water_sanitation_stats_def int_sum_def
      get_crimes_trend_def dh_get_crime_data_def crimes_trend_def select_def
      getitem_def lookup_def ebind_def frame_empty_def wards_example_def)

text \<open>
  C2 (as amended). When the dataset is absent (\<^verbatim>\<open>None\<close>) or its table is empty, every query
  of \<^verbatim>\<open>DashboardApp\<close>, \<^verbatim>\<open>DataProcessor\<close> and \<^verbatim>\<open>DataHandler\<close> returns its sentinel, the empty
  dictionary for a summary and \<^verbatim>\<open>None\<close> for a grouping or a trend, and raises nothing. When
  the grouping column or the value column is missing, the grouping queries return
  \<^verbatim>\<open>None\<close>; a summary on a non-empty table without its first column raises KeyError.
\<close>

theorem C2_queries_on_absent_or_empty:
  "(no_data d \<longrightarrow>
      get_water_sanitation_stats (data(''water_sanitation'' \<mapsto> d)) = Inr []
      \<and> get_environment_stats (data(''environment'' \<mapsto> d))
          = (Inr [], data(''environment'' \<mapsto> d))
      \<and> get_crimes_trend (data(''crimes'' \<mapsto> d)) = Inr None
      \<and> get_intersections_summary (data(''intersections'' \<mapsto> d)) = Inr []
      \<and> get_employment_stats (data(''employment'' \<mapsto> d)) = Inr []
      \<and> get_water_by_zone (data(''water_sanitation'' \<mapsto> d)) = Inr None
      \<and> get_water_by_ward (data(''water_sanitation'' \<mapsto> d)) = Inr None
      \<and> get_environment_trend (data(''environment'' \<mapsto> d)) = Inr None
      \<and> get_intersections_by_zone (data(''intersections'' \<mapsto> d)) = Inr None
      \<and> get_zone_summary d value_col = None
      \<and> get_ward_summary d value_col top_n = None
      \<and> dh_get_water_stats (data(''water'' \<mapsto> d)) = Inr []
      \<and> dh_get_environment_stats (data(''environment'' \<mapsto> d)) = Inr []
      \<and> dh_get_crime_data (data(''crimes'' \<mapsto> d)) = Inr None
      \<and> dh_get_infrastructure_stats (data(''infrastructure'' \<mapsto> d)) = Inr []
      \<and> dh_get_employment_stats (data(''employment'' \<mapsto> d)) = Inr []
      \<and> dh_get_zone_data (data(dataset \<mapsto> d)) dataset value_col = Inr None)
   \<and> (''Zone Name'' \<notin> set (columns df) \<or> value_col \<notin> set (columns df) \<longrightarrow>
      get_zone_summary (Some df) value_col = None
      \<and> dh_get_zone_data (data(dataset \<mapsto> Some df)) dataset value_col = Inr None)
   \<and> (''Ward Name'' \<notin> set (columns df) \<or> value_col \<notin> set (columns df) \<longrightarrow>
      get_ward_summary (Some df) value_col top_n = None)
   \<and> (\<not> frame_empty df \<and> ''Total number of households (HH)'' \<notin> set (columns df) \<longrightarrow>
      get_water_sanitation_stats (data(''water_sanitation'' \<mapsto> Some df)) = Inl KeyError)"
proof -
  have a: "no_data d \<longrightarrow>
      get_water_sanitation_stats (data(''water_sanitation'' \<mapsto> d)) = Inr []
      \<and> get_environment_stats (data(''environment'' \<mapsto> d))
          = (Inr [], data(''environment'' \<mapsto> d))
      \<and> get_crimes_trend (data(''crimes'' \<mapsto> d)) = Inr None
      \<and> get_intersections_summary (data(''intersections'' \<mapsto> d)) = Inr []
      \<and> get_employment_stats (data(''employment'' \<mapsto> d)) = Inr []
      \<and> get_water_by_zone (data(''water_sanitation'' \<mapsto> d)) = Inr None
      \<and> get_water_by_ward (data(''water_sanitation'' \<mapsto> d)) = Inr None
      \<and> get_environment_trend (data(''environment'' \<mapsto> d)) = Inr None
      \<and> get_intersections_by_zone (data(''intersections'' \<mapsto> d)) = Inr None
      \<and> get_zone_summary d value_col = None
      \<and> get_ward_summary d value_col top_n = None
      \<and> dh_get_water_stats (data(''water'' \<mapsto> d)) = Inr []
      \<and> dh_get_environment_stats (data(''environment'' \<mapsto> d)) = Inr []
      \<and> dh_get_crime_data (data(''crimes'' \<mapsto> d)) = Inr None
      \<and> dh_get_infrastructure_stats (data(''infrastructure'' \<mapsto> d)) = Inr []
      \<and> dh_get_employment_stats (data(''employment'' \<mapsto> d)) = Inr []
      \<and> dh_get_zone_data (data(dataset \<mapsto> d)) dataset value_col = Inr None"
    by (cases d)
      (simp_all add: no_data_def lookup_def ebind_def get_water_sanitation_stats_def
        get_environment_stats_def get_crimes_trend_def get_intersections_summary_def
        get_employment_stats_def get_water_by_zone_def get_water_by_ward_def
        get_environment_trend_def get_intersections_by_zone_def get_zone_summary_def
        get_ward_summary_def dh_get_water_stats_def dh_get_environment_stats_def
        dh_get_crime_data_def dh_get_infrastructure_stats_def dh_get_employment_stats_def
        dh_get_zone_data_def)
  have g: "g \<notin> set (columns df) \<or> value_col \<notin> set (columns df) \<Longrightarrow>
      \<exists>e. grouped_sorted df g value_col kc = Inl e" for g kc
    by (auto simp: grouped_sorted_def groupby_sum_def ebind_def)
  have b: "''Zone Name'' \<notin> set (columns df) \<or> value_col \<notin> set (columns df) \<longrightarrow>
      get_zone_summary (Some df) value_col = None
      \<and> dh_get_zone_data (data(dataset \<mapsto> Some df)) dataset value_col = Inr None"
  proof
    assume h: "''Zone Name'' \<notin> set (columns df) \<or> value_col \<notin> set (columns df)"
    from g [OF h, of "''Zone Name''"] g [OF h, of "''Zone''"]
    show "get_zone_summary (Some df) value_col = None
      \<and> dh_get_zone_data (data(dataset \<mapsto> Some df)) dataset value_col = Inr None"
      by (auto simp: get_zone_summary_def dh_get_zone_data_def lookup_def ebind_def)
  qed
  have c: "''Ward Name'' \<notin> set (columns df) \<or> value_col \<notin> set (columns df) \<longrightarrow>
      get_ward_summary (Some df) value_col top_n = None"
  proof
    assume h: "''Ward Name'' \<notin> set (columns df) \<or> value_col \<notin> set (columns df)"
    from g [OF h, of "''Ward Name''"]
    show "get_ward_summary (Some df) value_col top_n = None"
      by (auto simp: get_ward_summary_def)
  qed
  have e: "\<not> frame_empty df \<and> ''Total number of households (HH)'' \<notin> set (columns df) \<longrightarrow>
      get_water_sanitation_stats (data(''water_sanitation'' \<mapsto> Some df)) = Inl KeyError"
    by (simp add: get_water_sanitation_stats_def water_sanitation_stats_def int_sum_def
        getitem_def lookup_def ebind_def)
  show ?thesis by (intro conjI a b c e)
qed

theorem C2_queries_on_absent_or_empty_witness:
  "no_data None
   \<and> get_water_sanitation_stats [''water_sanitation'' \<mapsto> None] = Inr []
   \<and> dh_get_crime_data [''crimes'' \<mapsto> None] = Inr None
   \<and> no_data (Some empty_frame)
   \<and> get_employment_stats [''employment'' \<mapsto> Some empty_frame] = Inr []
   \<and> get_environment_trend [''environment'' \<mapsto> Some empty_frame] = Inr None
   \<and> ''Zone Name'' \<notin> set (columns crimes_example)
   \<and> get_zone_summary (Some crimes_example) ''Year'' = None
   \<and> dh_get_zone_data [''crimes'' \<mapsto> Some crimes_example] ''crimes'' ''Year'' = Inr None
   \<and> ''Population'' \<notin> set (columns wards_example)
   \<and> get_ward_summary (Some wards_example) ''Population'' 15 = None
   \<and> \<not> frame_empty wards_example
   \<and> ''Total number of households (HH)'' \<notin> set (columns wards_example)
   \<and> get_water_sanitation_stats [''water_sanitation'' \<mapsto> Some wards_example] = Inl KeyError"
proof -
  note n = C2_queries_on_absent_or_empty [where d = None and data = Map.empty,
      THEN conjunct1]
  note m = C2_queries_on_absent_or_empty [where d = "Some empty_frame" and data = Map.empty,
      THEN conjunct1]
  note z = C2_queries_on_absent_or_empty [where df = crimes_example and data = Map.empty
      and value_col = "''Year''" and dataset = "''crimes''",
      THEN conjunct2, THEN conjunct1]
  note w = C2_queries_on_absent_or_empty [where df = wards_example and data = Map.empty
      and value_col = "''Population''" and top_n = 15,
      THEN conjunct2, THEN conjunct2, THEN conjunct1]
  note k = C2_queries_on_absent_or_empty [where df = wards_example and data = Map.empty,
      THEN conjunct2, THEN conjunct2, THEN conjunct2]
  have h1: "no_data None" by (simp add: no_data_def)
  have h2: "no_data (Some empty_frame)" by (simp add: no_data_def frame_empty_def empty_frame_def)
  have h3: "''Zone Name'' \<notin> set (columns crimes_example)" by (simp add: crimes_example_def)
  have h4: "''Population'' \<notin> set (columns wards_example)" by (simp add: wards_example_def)
  have h5: "\<not> frame_empty wards_example" by (simp add: frame_empty_def wards_example_def)
  have h6: "''Total number of households (HH)'' \<notin> set (columns wards_example)"
    by (simp add: wards_example_def)
  from n h1 have n': "get_water_sanitation_stats [''water_sanitation'' \<mapsto> None] = Inr []"
    "dh_get_crime_data [''crimes'' \<mapsto> None] = Inr None" by blast+
  from m h2 have m': "get_employment_stats [''employment'' \<mapsto> Some empty_frame] = Inr []"
    "get_environment_trend [''environment'' \<mapsto> Some empty_frame] = Inr None" by blast+
  from z h3 have z': "get_zone_summary (Some crimes_example) ''Year'' = None"
    "dh_get_zone_data [''crimes'' \<mapsto> Some crimes_example] ''crimes'' ''Year'' = Inr None"
    by blast+
  from w h4 have w': "get_ward_summary (Some wards_example) ''Population'' 15 = None" by blast
  from k h5 h6
  have k': "get_water_sanitation_stats [''water_sanitation'' \<mapsto> Some wards_example]
      = Inl KeyError" by blast
  show ?thesis by (intro conjI h1 n' h2 m' h3 z' h4 w' h5 h6 k')
qed

section \<open>Average of the air-quality readings\<close>

lemma clean_numeric_10: "clean_numeric (Str ''10'') = Fin 10"
  by (simp add: clean_numeric_py_float float_defs)

lemma clean_numeric_NA: "clean_numeric (Str ''NA'') = NaN"
  by (simp add: clean_numeric_py_float float_defs)

lemma clean_numeric_20: "clean_numeric (Str ''20'') = Fin 20"
  by (simp add: clean_numeric_py_float float_defs)

lemma mean_10_NA_20: "mean_skipna [Fin 10, NaN, Fin 20] = Fin 15"
  by (simp add: mean_skipna_def sum_skipna_def)

lemma dashboard_means:
  assumes cols: "list_all (\<lambda>c. c \<in> set (columns env)) (map snd pollutant_columns)"
    and rows: "rows env \<noteq> []"
  shows "fst (get_environment_stats (data(''environment'' \<mapsto> Some env))) =
     Inr [(''pm25_avg'', VNum (PyFloat (np_round 2 (mean_skipna
            (map (\<lambda>r. clean_numeric (r ''Monthly mean/average concentration - PM2.5''))
               (rows env)))))),
          (''pm10_avg'', VNum (PyFloat (np_round 2 (mean_skipna
            (map (\<lambda>r. clean_numeric (r ''Monthly mean concentration - PM10'')) (rows env)))))),
          (''no2_avg'', VNum (PyFloat (np_round 2 (mean_skipna
            (map (\<lambda>r. clean_numeric (r ''Monthly mean concentration - NO2'')) (rows env)))))),
          (''so2_avg'', VNum (PyFloat (np_round 2 (mean_skipna
            (map (\<lambda>r. clean_numeric (r ''Monthly mean concentration - SO2'')) (rows env)))))),
          (''o3_avg'', VNum (PyFloat (np_round 2 (mean_skipna
            (map (\<lambda>r. clean_numeric (r ''Monthly mean concentration - O3'')) (rows env))))))]"
proof -
  from clean_columns_ok [OF cols] obtain env' where
    cc: "clean_columns env pollutant_columns = (None, env')"
    and cs: "set (columns env') = set (columns env) \<union> set (map fst pollutant_columns)"
    and rs: "rows env' =
         map (\<lambda>r. foldl (\<lambda>r (dst, src). r(dst := Num (clean_numeric (r src)))) r
                  pollutant_columns) (rows env)"
    by blast
  have ne: "\<not> frame_empty env"
    using cols rows by (auto simp: frame_empty_def pollutant_columns_def)
  have g1: "getitem env' ''PM2.5'' = Inr (map (\<lambda>r. Num (clean_numeric
       (r ''Monthly mean/average concentration - PM2.5''))) (rows env))"
    by (simp add: getitem_def cs rs pollutant_columns_def)
  have g2: "getitem env' ''PM10'' = Inr (map (\<lambda>r. Num (clean_numeric
       (r ''Monthly mean concentration - PM10''))) (rows env))"
    by (simp add: getitem_def cs rs pollutant_columns_def)
  have g3: "getitem env' ''NO2'' = Inr (map (\<lambda>r. Num (clean_numeric
       (r ''Monthly mean concentration - NO2''))) (rows env))"
    by (simp add: getitem_def cs rs pollutant_columns_def)
  have g4: "getitem env' ''SO2'' = Inr (map (\<lambda>r. Num (clean_numeric
       (r ''Monthly mean concentration - SO2''))) (rows env))"
    by (simp add: getitem_def cs rs pollutant_columns_def)
  have g5: "getitem env' ''O3'' = Inr (map (\<lambda>r. Num (clean_numeric
       (r ''Monthly mean concentration - O3''))) (rows env))"
    by (simp add: getitem_def cs rs pollutant_columns_def)
  show ?thesis
    using ne
    by (simp add: get_environment_stats_def lookup_def cc environment_means_def
        rounded_mean_def ebind_def g1 g2 g3 g4 g5 series_mean_map_Num)
qed

lemma handler_means:
  assumes cols: "list_all (\<lambda>c. c \<in> set (columns env)) (map snd pollutant_columns)"
    and rows: "rows env \<noteq> []"
  shows "dh_get_environment_stats (data(''environment'' \<mapsto> Some env)) =
     Inr [(''pm25_avg'', VNum (dh_round_or_zero 1 (mean_skipna
            (map (\<lambda>r. clean_numeric (r ''Monthly mean/average concentration - PM2.5''))
               (rows env))))),
          (''pm10_avg'', VNum (dh_round_or_zero 1 (mean_skipna
            (map (\<lambda>r. clean_numeric (r ''Monthly mean concentration - PM10'')) (rows env))))),
          (''no2_avg'', VNum (dh_round_or_zero 2 (mean_skipna
            (map (\<lambda>r. clean_numeric (r ''Monthly mean concentration - NO2'')) (rows env)))))]"
proof -
  have ne: "\<not> frame_empty env"
    using cols rows by (auto simp: frame_empty_def pollutant_columns_def)
  show ?thesis
    using ne cols
    by (simp add: dh_get_environment_stats_def lookup_def dh_environment_stats_def
        dh_clean_mean_def getitem_def ebind_def pollutant_columns_def dh_clean_numeric_eq o_def)
qed

text \<open>
  C5. On an air-quality table with the columns of the five pollutants whose PM2.5 column
  holds the readings "10", "NA" and "20" (as strings, or as the numbers 10, NaN and 20 that
  \<^verbatim>\<open>read_csv\<close> makes of them), both \<^verbatim>\<open>DashboardApp.get_environment_stats\<close> and
  \<^verbatim>\<open>DataHandler.get_environment_stats\<close> report the PM2.5 average 15.0: the reading "NA" is
  cleaned to NaN and left out of the mean, not counted as 0.
\<close>

theorem C5_pm25_average:
  assumes "list_all (\<lambda>c. c \<in> set (columns env)) (map snd pollutant_columns)"
    and "map (\<lambda>r. r ''Monthly mean/average concentration - PM2.5'') (rows env)
          = [Str ''10'', Str ''NA'', Str ''20'']
         \<or> map (\<lambda>r. r ''Monthly mean/average concentration - PM2.5'') (rows env)
          = [Num (Fin 10), Num NaN, Num (Fin 20)]"
  shows "\<exists>pm10 no2 so2 o3 pm10' no2'.
     fst (get_environment_stats (data(''environment'' \<mapsto> Some env))) =
       Inr [(''pm25_avg'', VNum (PyFloat (Fin 15))), (''pm10_avg'', VNum (PyFloat pm10)),
            (''no2_avg'', VNum (PyFloat no2)), (''so2_avg'', VNum (PyFloat so2)),
            (''o3_avg'', VNum (PyFloat o3))]
     \<and> dh_get_environment_stats (data(''environment'' \<mapsto> Some env)) =
       Inr [(''pm25_avg'', VNum (PyFloat (Fin 15))), (''pm10_avg'', VNum pm10'),
            (''no2_avg'', VNum no2')]"
proof -
  from assms(2) have rows: "rows env \<noteq> []" by auto
  have "map (\<lambda>r. clean_numeric (r ''Monthly mean/average concentration - PM2.5'')) (rows env)
      = map clean_numeric
          (map (\<lambda>r. r ''Monthly mean/average concentration - PM2.5'') (rows env))"
    by (simp add: o_def)
  also have "\<dots> = [Fin 10, NaN, Fin 20]"
  proof -
    have n: "clean_numeric (Num x) = x" for x by (simp add: clean_numeric_def)
    from assms(2) show ?thesis
    proof
      assume "map (\<lambda>r. r ''Monthly mean/average concentration - PM2.5'') (rows env)
          = [Str ''10'', Str ''NA'', Str ''20'']"
      then show ?thesis by (simp add: clean_numeric_10 clean_numeric_NA clean_numeric_20)
    next
      assume "map (\<lambda>r. r ''Monthly mean/average concentration - PM2.5'') (rows env)
          = [Num (Fin 10), Num NaN, Num (Fin 20)]"
      then show ?thesis by (simp add: n)
    qed
  qed
  finally have m: "mean_skipna
      (map (\<lambda>r. clean_numeric (r ''Monthly mean/average concentration - PM2.5'')) (rows env))
      = Fin 15"
    by (simp add: mean_10_NA_20)
  have r2: "np_round 2 (Fin 15) = Fin 15" by (simp add: np_round_def)
  have r1: "dh_round_or_zero 1 (Fin 15) = PyFloat (Fin 15)"
    by (simp add: dh_round_or_zero_def isna_def np_round_def)
  show ?thesis
    unfolding dashboard_means [OF assms(1) rows] handler_means [OF assms(1) rows] m r2 r1
    by blast
qed

theorem C5_pm25_average_witness:
  "list_all (\<lambda>c. c \<in> set (columns environment_three)) (map snd pollutant_columns)
   \<and> map (\<lambda>r. r ''Monthly mean/average concentration - PM2.5'') (rows environment_three)
       = [Str ''10'', Str ''NA'', Str ''20'']
   \<and> (\<exists>pm10 no2 so2 o3 pm10' no2'.
     fst (get_environment_stats [''environment'' \<mapsto> Some environment_three]) =
       Inr [(''pm25_avg'', VNum (PyFloat (Fin 15))), (''pm10_avg'', VNum (PyFloat pm10)),
            (''no2_avg'', VNum (PyFloat no2)), (''so2_avg'', VNum (PyFloat so2)),
            (''o3_avg'', VNum (PyFloat o3))]
     \<and> dh_get_environment_stats [''environment'' \<mapsto> Some environment_three] =
       Inr [(''pm25_avg'', VNum (PyFloat (Fin 15))), (''pm10_avg'', VNum pm10'),
            (''no2_avg'', VNum no2')])"
proof -
  have a: "list_all (\<lambda>c. c \<in> set (columns environment_three)) (map snd pollutant_columns)"
    by (simp add: environment_three_def environment_columns_def pollutant_columns_def)
  have b: "map (\<lambda>r. r ''Monthly mean/average concentration - PM2.5'') (rows environment_three)
       = [Str ''10'', Str ''NA'', Str ''20'']"
    by (simp add: environment_three_def environment_row_def)
  from a b C5_pm25_average [OF a disjI1, OF b, of Map.empty] show ?thesis by blast
qed

section \<open>Order of the trends\<close>

lemma cell_key_le_NaN: "is_num c \<Longrightarrow> cell_key c \<le> cell_key (Num NaN)"
proof (cases c)
  case (Num x)
  then show ?thesis by (cases x) simp_all
next
  case (Str s)
  then show "is_num c \<Longrightarrow> ?thesis" by simp
qed

lemma sorted_same: "\<forall>x\<in>set xs. x = k \<Longrightarrow> sorted xs"
  by (induction xs) auto

lemma sort_values_ascending:
  assumes c: "c \<in> set (columns df)" and num: "list_all (\<lambda>r. is_num (r c)) (rows df)"
  shows "\<exists>t. sort_values df c True = Inr t \<and> columns t = columns df
     \<and> mset (rows t) = mset (rows df)
     \<and> sorted (map (\<lambda>r. cell_key (r c)) (rows t))"
proof -
  let ?f = "\<lambda>r. cell_key (r c)"
  let ?present = "filter (\<lambda>r. r c \<noteq> Num NaN) (rows df)"
  let ?missing = "filter (\<lambda>r. r c = Num NaN) (rows df)"
  let ?t = "df\<lparr>rows := sort_key ?f ?present @ ?missing\<rparr>"
  have p: "list_all (\<lambda>r. is_num (r c)) ?present"
    using num by (auto simp: list_all_iff)
  then have sv: "sort_values df c True = Inr ?t"
    using c by (simp add: sort_values_def order_by_def Let_def)
  have ms: "mset (rows ?t) = mset (rows df)"
  proof -
    have "mset ?present + mset ?missing = mset (rows df)"
      by (induction "rows df") simp_all
    then show ?thesis by simp
  qed
  have s1: "sorted (map ?f (sort_key ?f ?present))" by (rule sorted_sort_key)
  have s2: "sorted (map ?f ?missing)" by (rule sorted_same [of _ "cell_key (Num NaN)"]) auto
  have s3: "\<forall>x\<in>set (map ?f (sort_key ?f ?present)). \<forall>y\<in>set (map ?f ?missing). x \<le> y"
    using num by (auto simp: list_all_iff simp del: cell_key.simps intro: cell_key_le_NaN)
  have so: "sorted (map ?f (rows ?t))"
    using s1 s2 s3 by (simp add: sorted_append)
  from sv ms so show ?thesis by (intro exI [of _ ?t]) simp
qed

lemma crimes_trend_ok:
  assumes "''Year'' \<in> set (columns crimes)"
    and "''Total number of crimes recorded'' \<in> set (columns crimes)"
    and "list_all (\<lambda>r. is_num (r ''Year'')) (rows crimes)"
  shows "\<exists>t. crimes_trend crimes = Inr t
     \<and> columns t = [''Year'', ''Total number of crimes recorded'']
     \<and> mset (rows t) = mset (rows crimes)
     \<and> sorted (map (\<lambda>r. cell_key (r ''Year'')) (rows t))"
proof -
  let ?result = "crimes\<lparr>columns := [''Year'', ''Total number of crimes recorded'']\<rparr>"
  have sel: "select crimes [''Year'', ''Total number of crimes recorded''] = Inr ?result"
    using assms by (simp add: select_def)
  have "\<exists>t. sort_values ?result ''Year'' True = Inr t \<and> columns t = columns ?result
     \<and> mset (rows t) = mset (rows ?result)
     \<and> sorted (map (\<lambda>r. cell_key (r ''Year'')) (rows t))"
    using assms(3) by (intro sort_values_ascending) simp_all
  then show ?thesis by (simp add: crimes_trend_def sel ebind_def)
qed

lemma environment_trend_ok:
  assumes "''Month -Year'' \<in> set (columns env)"
    and "''Monthly mean/average concentration - PM2.5'' \<in> set (columns env)"
    and "''Monthly mean concentration - PM10'' \<in> set (columns env)"
  shows "\<exists>t. environment_trend env = Inr t
     \<and> columns t = [''Month -Year'', ''PM2.5'', ''PM10'']
     \<and> rows t = drop (length (rows env) - 12)
          (map (\<lambda>r. r(''PM2.5'' := Num (clean_numeric
                    (r ''Monthly mean/average concentration - PM2.5'')),
                    ''PM10'' := Num (clean_numeric (r ''Monthly mean concentration - PM10''))))
             (rows env))"
proof -
  let ?env1 = "\<lparr>columns = (if ''PM2.5'' \<in> set (columns env) then columns env
                             else columns env @ [''PM2.5'']),
          rows = map (\<lambda>r. r(''PM2.5'' := Num (clean_numeric
                    (r ''Monthly mean/average concentration - PM2.5'')))) (rows env)\<rparr>"
  have c1: "clean_column env ''PM2.5'' ''Monthly mean/average concentration - PM2.5''
      = Inr ?env1"
    using assms(2) by (rule clean_column_ok)
  have "''Monthly mean concentration - PM10'' \<in> set (columns ?env1)"
    using assms(3) by simp
  from clean_column_ok [OF this, of "''PM10''"]
  have c2: "clean_column ?env1 ''PM10'' ''Monthly mean concentration - PM10'' =
     Inr \<lparr>columns = (if ''PM10'' \<in> set (columns ?env1) then columns ?env1
                        else columns ?env1 @ [''PM10'']),
          rows = map (\<lambda>r. r(''PM10'' := Num (clean_numeric
                    (r ''Monthly mean concentration - PM10'')))) (rows ?env1)\<rparr>" .
  show ?thesis
    unfolding environment_trend_def c1 ebind_def sum.case c2
    using assms(1) by (simp add: select_def tail_def o_def drop_map)
qed

text \<open>
  The claim as stated also promises that the air-quality trend is sorted by its time
  column. \<^verbatim>\<open>get_environment_trend\<close> does not sort: on a table that lists March before
  January it returns March before January, which is ascending neither as strings nor in
  the calendar.
\<close>

theorem C7_environment_trend_unsorted_counterexample:
  "result_pairs ''Month -Year'' ''PM2.5''
      (get_environment_trend [''environment'' \<mapsto> Some environment_unordered])
     = [(Str ''Mar-2020'', Num (Fin 50)), (Str ''Jan-2020'', Num (Fin 40))]
   \<and> \<not> sorted (map cell_key [Str ''Mar-2020'', Str ''Jan-2020''])"
  by (simp add: result_pairs_def frame_pairs_def get_environment_trend_def lookup_def
      frame_empty_def environment_unordered_def environment_columns_def environment_row_def
      environment_trend_def clean_column_def getitem_def assign_def select_def tail_def
      ebind_def clean_numeric_def)

text \<open>
  C7 (as amended). \<^verbatim>\<open>get_crimes_trend\<close> and \<^verbatim>\<open>DataHandler.get_crime_data\<close> return the
  rows of the crimes table, restricted to the year and the count, sorted ascending by year
  (rows without a year last) whatever the order of the input; the crimes of 2019, 2021 and
  2020 with counts 100, 300 and 200 come out as (2019, 100), (2020, 200), (2021, 300).
  \<^verbatim>\<open>get_environment_trend\<close> returns the last twelve rows of the air-quality table in the
  order of the table, with the cleaned PM2.5 and PM10 readings; it does not sort.
\<close>

theorem C7_trends:
  "(data ''crimes'' = Some (Some crimes) \<and> rows crimes \<noteq> []
      \<and> ''Year'' \<in> set (columns crimes)
      \<and> ''Total number of crimes recorded'' \<in> set (columns crimes)
      \<and> list_all (\<lambda>r. is_num (r ''Year'')) (rows crimes) \<longrightarrow>
      (\<exists>t. get_crimes_trend data = Inr (Some t) \<and> dh_get_crime_data data = Inr (Some t)
         \<and> columns t = [''Year'', ''Total number of crimes recorded'']
         \<and> mset (rows t) = mset (rows crimes)
         \<and> sorted (map (\<lambda>r. cell_key (r ''Year'')) (rows t))))
   \<and> result_pairs ''Year'' ''Total number of crimes recorded''
        (get_crimes_trend [''crimes'' \<mapsto> Some crimes_example])
      = [(Num (Fin 2019), Num (Fin 100)), (Num (Fin 2020), Num (Fin 200)),
         (Num (Fin 2021), Num (Fin 300))]
   \<and> (data ''environment'' = Some (Some env) \<and> rows env \<noteq> []
      \<and> ''Month -Year'' \<in> set (columns env)
      \<and> ''Monthly mean/average concentration - PM2.5'' \<in> set (columns env)
      \<and> ''Monthly mean concentration - PM10'' \<in> set (columns env) \<longrightarrow>
      (\<exists>t. get_environment_trend data = Inr (Some t)
         \<and> columns t = [''Month -Year'', ''PM2.5'', ''PM10'']
         \<and> frame_pairs ''Month -Year'' ''PM2.5'' t =
             drop (length (rows env) - 12)
               (map (\<lambda>r. (r ''Month -Year'', Num (clean_numeric
                       (r ''Monthly mean/average concentration - PM2.5'')))) (rows env))
         \<and> frame_pairs ''Month -Year'' ''PM10'' t =
             drop (length (rows env) - 12)
               (map (\<lambda>r. (r ''Month -Year'', Num (clean_numeric
                       (r ''Monthly mean concentration - PM10'')))) (rows env))))"
proof -
  have a: "data ''crimes'' = Some (Some crimes) \<and> rows crimes \<noteq> []
      \<and> ''Year'' \<in> set (columns crimes)
      \<and> ''Total number of crimes recorded'' \<in> set (columns crimes)
      \<and> list_all (\<lambda>r. is_num (r ''Year'')) (rows crimes) \<longrightarrow>
      (\<exists>t. get_crimes_trend data = Inr (Some t) \<and> dh_get_crime_data data = Inr (Some t)
         \<and> columns t = [''Year'', ''Total number of crimes recorded'']
         \<and> mset (rows t) = mset (rows crimes)
         \<and> sorted (map (\<lambda>r. cell_key (r ''Year'')) (rows t)))"
  proof
    assume h: "data ''crimes'' = Some (Some crimes) \<and> rows crimes \<noteq> []
      \<and> ''Year'' \<in> set (columns crimes)
      \<and> ''Total number of crimes recorded'' \<in> set (columns crimes)
      \<and> list_all (\<lambda>r. is_num (r ''Year'')) (rows crimes)"
    then have ne: "\<not> frame_empty crimes" by (auto simp: frame_empty_def)
    from h crimes_trend_ok [of crimes] obtain t where
      t: "crimes_trend crimes = Inr t"
        "columns t = [''Year'', ''Total number of crimes recorded'']"
        "mset (rows t) = mset (rows crimes)"
        "sorted (map (\<lambda>r. cell_key (r ''Year'')) (rows t))"
      by blast
    have "get_crimes_trend data = Inr (Some t)" "dh_get_crime_data data = Inr (Some t)"
      using h ne t(1)
      by (simp_all add: get_crimes_trend_def dh_get_crime_data_def lookup_def ebind_def)
    with t show "\<exists>t. get_crimes_trend data = Inr (Some t)
         \<and> dh_get_crime_data data = Inr (Some t)
         \<and> columns t = [''Year'', ''Total number of crimes recorded'']
         \<and> mset (rows t) = mset (rows crimes)
         \<and> sorted (map (\<lambda>r. cell_key (r ''Year'')) (rows t))"
      by blast
  qed
  have b: "result_pairs ''Year'' ''Total number of crimes recorded''
        (get_crimes_trend [''crimes'' \<mapsto> Some crimes_example])
      = [(Num (Fin 2019), Num (Fin 100)), (Num (Fin 2020), Num (Fin 200)),
         (Num (Fin 2021), Num (Fin 300))]"
    by (simp add: result_pairs_def frame_pairs_def get_crimes_trend_def lookup_def
        frame_empty_def crimes_example_def crimes_row_def crimes_trend_def select_def
        sort_values_def order_by_def ebind_def)
  have c: "data ''environment'' = Some (Some env) \<and> rows env \<noteq> []
      \<and> ''Month -Year'' \<in> set (columns env)
      \<and> ''Monthly mean/average concentration - PM2.5'' \<in> set (columns env)
      \<and> ''Monthly mean concentration - PM10'' \<in> set (columns env) \<longrightarrow>
      (\<exists>t. get_environment_trend data = Inr (Some t)
         \<and> columns t = [''Month -Year'', ''PM2.5'', ''PM10'']
         \<and> frame_pairs ''Month -Year'' ''PM2.5'' t =
             drop (length (rows env) - 12)
               (map (\<lambda>r. (r ''Month -Year'', Num (clean_numeric
                       (r ''Monthly mean/average concentration - PM2.5'')))) (rows env))
         \<and> frame_pairs ''Month -Year'' ''PM10'' t =
             drop (length (rows env) - 12)
               (map (\<lambda>r. (r ''Month -Year'', Num (clean_numeric
                       (r ''Monthly mean concentration - PM10'')))) (rows env)))"
  proof
    assume h: "data ''environment'' = Some (Some env) \<and> rows env \<noteq> []
      \<and> ''Month -Year'' \<in> set (columns env)
      \<and> ''Monthly mean/average concentration - PM2.5'' \<in> set (columns env)
      \<and> ''Monthly mean concentration - PM10'' \<in> set (columns env)"
    then have ne: "\<not> frame_empty env" by (auto simp: frame_empty_def)
    from h environment_trend_ok [of env] obtain t where
      t: "environment_trend env = Inr t" "columns t = [''Month -Year'', ''PM2.5'', ''PM10'']"
        "rows t = drop (length (rows env) - 12)
          (map (\<lambda>r. r(''PM2.5'' := Num (clean_numeric
                    (r ''Monthly mean/average concentration - PM2.5'')),
                    ''PM10'' := Num (clean_numeric (r ''Monthly mean concentration - PM10''))))
             (rows env))"
      by blast
    have g: "get_environment_trend data = Inr (Some t)"
      using h ne t(1) by (simp add: get_environment_trend_def lookup_def ebind_def)
    have p1: "frame_pairs ''Month -Year'' ''PM2.5'' t =
             drop (length (rows env) - 12)
               (map (\<lambda>r. (r ''Month -Year'', Num (clean_numeric
                       (r ''Monthly mean/average concentration - PM2.5'')))) (rows env))"
      by (simp add: frame_pairs_def t(3) drop_map o_def)
    have p2: "frame_pairs ''Month -Year'' ''PM10'' t =
             drop (length (rows env) - 12)
               (map (\<lambda>r. (r ''Month -Year'', Num (clean_numeric
                       (r ''Monthly mean concentration - PM10'')))) (rows env))"
      by (simp add: frame_pairs_def t(3) drop_map o_def)
    from g t(2) p1 p2 show "\<exists>t. get_environment_trend data = Inr (Some t)
         \<and> columns t = [''Month -Year'', ''PM2.5'', ''PM10'']
         \<and> frame_pairs ''Month -Year'' ''PM2.5'' t =
             drop (length (rows env) - 12)
               (map (\<lambda>r. (r ''Month -Year'', Num (clean_numeric
                       (r ''Monthly mean/average concentration - PM2.5'')))) (rows env))
         \<and> frame_pairs ''Month -Year'' ''PM10'' t =
             drop (length (rows env) - 12)
               (map (\<lambda>r. (r ''Month -Year'', Num (clean_numeric
                       (r ''Monthly mean concentration - PM10'')))) (rows env))"
      by blast
  qed
  show ?thesis by (intro conjI a b c)
qed

theorem C7_trends_witness:
  "(\<exists>t. get_crimes_trend [''crimes'' \<mapsto> Some crimes_example,
                               ''environment'' \<mapsto> Some environment_unordered] = Inr (Some t)
      \<and> dh_get_crime_data [''crimes'' \<mapsto> Some crimes_example,
                             ''environment'' \<mapsto> Some environment_unordered] = Inr (Some t)
      \<and> columns t = [''Year'', ''Total number of crimes recorded'']
      \<and> mset (rows t) = mset (rows crimes_example)
      \<and> sorted (map (\<lambda>r. cell_key (r ''Year'')) (rows t)))
   \<and> (\<exists>t. get_environment_trend [''crimes'' \<mapsto> Some crimes_example,
                                    ''environment'' \<mapsto> Some environment_unordered]
          = Inr (Some t)
      \<and> columns t = [''Month -Year'', ''PM2.5'', ''PM10'']
      \<and> frame_pairs ''Month -Year'' ''PM2.5'' t
          = [(Str ''Mar-2020'', Num (Fin 50)), (Str ''Jan-2020'', Num (Fin 40))]
      \<and> frame_pairs ''Month -Year'' ''PM10'' t
          = [(Str ''Mar-2020'', Num (Fin 70)), (Str ''Jan-2020'', Num (Fin 90))])"
proof -
  let ?D = "[''crimes'' \<mapsto> Some crimes_example,
            ''environment'' \<mapsto> Some environment_unordered]"
  note c = C7_trends [where data = ?D and crimes = crimes_example
      and env = environment_unordered]
  have h1: "?D ''crimes'' = Some (Some crimes_example) \<and> rows crimes_example \<noteq> []
      \<and> ''Year'' \<in> set (columns crimes_example)
      \<and> ''Total number of crimes recorded'' \<in> set (columns crimes_example)
      \<and> list_all (\<lambda>r. is_num (r ''Year'')) (rows crimes_example)"
    by (simp add: crimes_example_def crimes_row_def)
  have h2: "?D ''environment'' = Some (Some environment_unordered)
      \<and> rows environment_unordered \<noteq> []
      \<and> ''Month -Year'' \<in> set (columns environment_unordered)
      \<and> ''Monthly mean/average concentration - PM2.5'' \<in> set (columns environment_unordered)
      \<and> ''Monthly mean concentration - PM10'' \<in> set (columns environment_unordered)"
    by (simp add: environment_unordered_def environment_columns_def)
  have e1: "drop (length (rows environment_unordered) - 12)
         (map (\<lambda>r. (r ''Month -Year'', Num (clean_numeric
                 (r ''Monthly mean/average concentration - PM2.5''))))
            (rows environment_unordered))
      = [(Str ''Mar-2020'', Num (Fin 50)), (Str ''Jan-2020'', Num (Fin 40))]"
    by (simp add: environment_unordered_def environment_row_def clean_numeric_def)
  have e2: "drop (length (rows environment_unordered) - 12)
         (map (\<lambda>r. (r ''Month -Year'', Num (clean_numeric
                 (r ''Monthly mean concentration - PM10''))))
            (rows environment_unordered))
      = [(Str ''Mar-2020'', Num (Fin 70)), (Str ''Jan-2020'', Num (Fin 90))]"
    by (simp add: environment_unordered_def environment_row_def clean_numeric_def)
  note a = c [THEN conjunct1, THEN mp, OF h1]
  note b = c [THEN conjunct2, THEN conjunct2, THEN mp, OF h2, unfolded e1 e2]
  from a b show ?thesis by (rule conjI)
qed

section \<open>Group summaries\<close>

lemma numbers_num: "list_all is_num cs \<Longrightarrow> \<exists>xs. numbers cs = Inr xs"
proof (induction cs)
  case Nil
  then show ?case by simp
next
  case (Cons c cs)
  then obtain x xs where "c = Num x" "numbers cs = Inr xs" by (cases c) auto
  then show ?case by simp
qed

lemma series_sum_num: "list_all is_num cs \<Longrightarrow> \<exists>s. series_sum cs = Inr s"
  using numbers_num [of cs] by (auto simp: series_sum_def)

lemma group_sums_ok:
  assumes "list_all (\<lambda>r. is_num (r v)) (rows df)"
  shows "\<exists>ps. group_sums df g v ks = Inr ps \<and> map fst ps = ks
     \<and> list_all (\<lambda>(k, s). series_sum (group_values df g v k) = Inr s) ps"
proof (induction ks)
  case Nil
  show ?case by simp
next
  case (Cons k ks)
  have "list_all is_num (group_values df g v k)"
    using assms by (auto simp: group_values_def list_all_iff)
  from series_sum_num [OF this] obtain s where s: "series_sum (group_values df g v k) = Inr s" ..
  from Cons.IH obtain ps where ps: "group_sums df g v ks = Inr ps" "map fst ps = ks"
      "list_all (\<lambda>(k, s). series_sum (group_values df g v k) = Inr s) ps"
    by blast
  have "group_sums df g v (k # ks) = Inr ((k, s) # ps)" using s ps(1) by simp
  with s ps show ?case by auto
qed

lemma insort_key_map:
  "insort_key f (h x) (map h ys) = map h (insort_key (\<lambda>x. f (h x)) x ys)"
  by (induction ys) simp_all

lemma sort_key_map: "sort_key f (map h xs) = map h (sort_key (\<lambda>x. f (h x)) xs)"
  by (induction xs) (simp_all add: insort_key_map)

lemma sorted_wrt_all_nan: "\<forall>x\<in>set xs. x = NaN \<Longrightarrow> sorted_wrt desc_nan_last xs"
  by (induction xs) (auto simp: desc_nan_last_def)

text \<open>The pairs of a grouped series in the order of a descending sort of the sums.\<close>

lemma desc_pairs:
  fixes ps :: "(cell \<times> number) list"
  defines "k \<equiv> \<lambda>p. cell_key (Num (snd p))"
  defines "qs \<equiv> rev (sort_key k (rev (filter (\<lambda>p. snd p \<noteq> NaN) ps)))
                 @ filter (\<lambda>p. snd p = NaN) ps"
  shows "mset qs = mset ps" and "sorted_wrt desc_nan_last (map snd qs)"
proof -
  let ?P = "filter (\<lambda>p. snd p \<noteq> NaN) ps"
  let ?B = "filter (\<lambda>p. snd p = NaN) ps"
  let ?S = "sort_key k (rev ?P)"
  have "mset ?P + mset ?B = mset ps" by (induction ps) simp_all
  then show "mset qs = mset ps" by (simp add: qs_def)
  have "sorted (map k ?S)" by (rule sorted_sort_key)
  then have "sorted_wrt (\<lambda>p q. k p \<le> k q) ?S" by (simp add: sorted_wrt_map)
  then have "sorted_wrt (\<lambda>p q. k q \<le> k p) (rev ?S)" by (simp add: sorted_wrt_rev)
  moreover have "\<And>p q. p \<in> set (rev ?S) \<Longrightarrow> q \<in> set (rev ?S) \<Longrightarrow> k q \<le> k p
      \<Longrightarrow> desc_nan_last (snd p) (snd q)"
    by (auto simp: k_def desc_nan_last_def)
  ultimately have "sorted_wrt (\<lambda>p q. desc_nan_last (snd p) (snd q)) (rev ?S)"
    by (rule sorted_wrt_mono_rel [rotated])
  then have a: "sorted_wrt desc_nan_last (map snd (rev ?S))" by (simp add: sorted_wrt_map)
  have b: "sorted_wrt desc_nan_last (map snd ?B)" by (rule sorted_wrt_all_nan) auto
  have c: "\<forall>x\<in>set (map snd (rev ?S)). \<forall>y\<in>set (map snd ?B). desc_nan_last x y"
    by (auto simp: desc_nan_last_def)
  from a b c show "sorted_wrt desc_nan_last (map snd qs)"
    by (simp add: qs_def sorted_wrt_append)
qed

lemma pair_row_value: "pair_row kc ''Value'' p ''Value'' = Num (snd p)"
  by (simp add: pair_row_def)

lemma pair_row_key: "kc \<noteq> ''Value'' \<Longrightarrow> pair_row kc ''Value'' p kc = fst p"
  by (simp add: pair_row_def)

lemma sort_values_pairs:
  "\<exists>qs. mset qs = mset ps \<and> sorted_wrt desc_nan_last (map snd qs)
     \<and> (\<forall>kc. sort_values \<lparr>columns = [kc, ''Value''],
                            rows = map (pair_row kc ''Value'') ps\<rparr> ''Value'' False
         = Inr \<lparr>columns = [kc, ''Value''], rows = map (pair_row kc ''Value'') qs\<rparr>)"
proof -
  let ?k = "\<lambda>p. cell_key (Num (snd p))"
  let ?P = "filter (\<lambda>p. snd p \<noteq> NaN) ps"
  let ?B = "filter (\<lambda>p. snd p = NaN) ps"
  let ?qs = "rev (sort_key ?k (rev ?P)) @ ?B"
  have "sort_values \<lparr>columns = [kc, ''Value''], rows = map (pair_row kc ''Value'') ps\<rparr>
          ''Value'' False
      = Inr \<lparr>columns = [kc, ''Value''], rows = map (pair_row kc ''Value'') ?qs\<rparr>" for kc
  proof -
    let ?h = "pair_row kc ''Value''"
    have present: "filter (\<lambda>r. r ''Value'' \<noteq> Num NaN) (map ?h ps) = map ?h ?P"
      by (simp add: filter_map o_def pair_row_value)
    have missing: "filter (\<lambda>r. r ''Value'' = Num NaN) (map ?h ps) = map ?h ?B"
      by (simp add: filter_map o_def pair_row_value)
    have num: "list_all (\<lambda>r. is_num (r ''Value'')) (map ?h ?P)"
      by (simp add: list_all_iff pair_row_value)
    have ord: "order_by (\<lambda>r. cell_key (r ''Value'')) False (map ?h ?P)
        = map ?h (rev (sort_key ?k (rev ?P)))"
    proof -
      have "sort_key (\<lambda>r. cell_key (r ''Value'')) (map ?h (rev ?P))
          = map ?h (sort_key (\<lambda>p. cell_key (?h p ''Value'')) (rev ?P))"
        by (rule sort_key_map)
      then show ?thesis by (simp add: order_by_def rev_map pair_row_value)
    qed
    show ?thesis
      unfolding sort_values_def Let_def using num
      by (simp add: present missing ord)
  qed
  with desc_pairs [of ps] show ?thesis by blast
qed

lemma grouped_sorted_ok:
  assumes g: "g \<in> set (columns df)" and v: "v \<in> set (columns df)" and vg: "v \<noteq> g"
    and num: "list_all (\<lambda>r. is_num (r v)) (rows df)"
  shows "\<exists>qs. is_group_summary df g v qs
     \<and> length qs = card (set (map (\<lambda>r. r g) (rows df)) - {Num NaN})
     \<and> (\<forall>kc. grouped_sorted df g v kc
         = Inr \<lparr>columns = [kc, ''Value''], rows = map (pair_row kc ''Value'') qs\<rparr>)"
proof -
  let ?keys = "filter (\<lambda>k. k \<noteq> Num NaN) (map (\<lambda>r. r g) (rows df))"
  from group_sums_ok [OF num, of g "group_keys df g"] obtain ps where
    ps: "group_sums df g v (group_keys df g) = Inr ps" "map fst ps = group_keys df g"
      "list_all (\<lambda>(k, s). series_sum (group_values df g v k) = Inr s) ps"
    by blast
  from sort_values_pairs [of ps] obtain qs where
    qs: "mset qs = mset ps" "sorted_wrt desc_nan_last (map snd qs)"
      "\<And>kc. sort_values \<lparr>columns = [kc, ''Value''],
                          rows = map (pair_row kc ''Value'') ps\<rparr> ''Value'' False
         = Inr \<lparr>columns = [kc, ''Value''], rows = map (pair_row kc ''Value'') qs\<rparr>"
    by blast
  have gs: "\<forall>kc. grouped_sorted df g v kc
         = Inr \<lparr>columns = [kc, ''Value''], rows = map (pair_row kc ''Value'') qs\<rparr>"
    using g v vg ps(1) qs(3)
    by (simp add: grouped_sorted_def groupby_sum_def reset_index_def ebind_def)
  have m: "mset (map fst qs) = mset (group_keys df g)"
    using qs(1) ps(2) by (metis mset_map)
  have dk: "distinct (group_keys df g)" by (simp add: group_keys_def)
  have sk: "set (group_keys df g) = set ?keys" by (simp add: group_keys_def)
  have d: "distinct (map fst qs)" using m dk by (metis mset_eq_imp_distinct_iff)
  have s: "set (map fst qs) = set ?keys" using m sk by (metis mset_eq_setD)
  have "set qs = set ps" using qs(1) by (rule mset_eq_setD)
  with ps(3) have l: "list_all (\<lambda>(k, s). series_sum (group_values df g v k) = Inr s) qs"
    by (simp add: list_all_iff)
  have "length qs = length (map fst qs)" by simp
  also have "\<dots> = card (set (map fst qs))" using d by (simp only: distinct_card)
  also have "set (map fst qs) = set (map (\<lambda>r. r g) (rows df)) - {Num NaN}"
    unfolding s by auto
  finally have n: "length qs = card (set (map (\<lambda>r. r g) (rows df)) - {Num NaN})" .
  from d s l qs(2) have "is_group_summary df g v qs" by (simp add: is_group_summary_def)
  with n gs show ?thesis by blast
qed

lemma frame_pairs_pair_rows:
  "kc \<noteq> ''Value'' \<Longrightarrow>
     frame_pairs kc ''Value'' \<lparr>columns = cs, rows = map (pair_row kc ''Value'') qs\<rparr>
       = map (\<lambda>(k, s). (k, Num s)) qs"
  by (simp add: frame_pairs_def pair_row_key pair_row_value case_prod_beta)

lemma top_of_sorted:
  assumes "sorted_wrt desc_nan_last (map snd qs)"
  shows "\<forall>a\<in>set (take n qs). \<forall>b\<in>set (drop n qs). desc_nan_last (snd a) (snd b)"
proof -
  have "sorted_wrt desc_nan_last (map snd (take n qs @ drop n qs))" using assms by simp
  then show ?thesis unfolding map_append sorted_wrt_append by auto
qed

text \<open>
  C6. On a table with the grouping column and a numeric value column, \<^verbatim>\<open>get_zone_summary\<close>
  (and \<^verbatim>\<open>DataHandler.get_zone_data\<close>) return one pair per zone, the zone and the sum of its
  values, in descending order of the sums. \<^verbatim>\<open>get_ward_summary\<close> with \<open>top_n = k \<ge> 0\<close>
  returns the first k pairs of that descending sequence of wards: the truncation comes
  after the sort, the result has \<open>min k n\<close> entries for \<open>n\<close> distinct wards, and no ward
  left out has a larger sum than a ward kept. On the wards W1, W2, W1, W3 of the zones Z1,
  Z1, Z2, Z2 with 3, 5, 4 and 1 toilets the top two wards are W1 with 7 and W2 with 5, and
  the zones are Z1 with 8 and Z2 with 5.
\<close>

theorem C6_group_summaries:
  assumes v: "value_col \<in> set (columns df)"
    and num: "list_all (\<lambda>r. is_num (r value_col)) (rows df)"
    and ne: "rows df \<noteq> []"
  shows
  "(''Zone Name'' \<in> set (columns df) \<and> value_col \<noteq> ''Zone Name'' \<longrightarrow>
      (\<exists>t t' qs. is_group_summary df ''Zone Name'' value_col qs
         \<and> get_zone_summary (Some df) value_col = Some t
         \<and> columns t = [''Zone Name'', ''Value'']
         \<and> frame_pairs ''Zone Name'' ''Value'' t = map (\<lambda>(k, s). (k, Num s)) qs
         \<and> dh_get_zone_data (data(dataset \<mapsto> Some df)) dataset value_col = Inr (Some t')
         \<and> columns t' = [''Zone'', ''Value'']
         \<and> frame_pairs ''Zone'' ''Value'' t' = map (\<lambda>(k, s). (k, Num s)) qs))
   \<and> (''Ward Name'' \<in> set (columns df) \<and> value_col \<noteq> ''Ward Name'' \<and> 0 \<le> top_n \<longrightarrow>
      (\<exists>t qs. is_group_summary df ''Ward Name'' value_col qs
         \<and> get_ward_summary (Some df) value_col top_n = Some t
         \<and> columns t = [''Ward Name'', ''Value'']
         \<and> frame_pairs ''Ward Name'' ''Value'' t
             = map (\<lambda>(k, s). (k, Num s)) (take (nat top_n) qs)
         \<and> length (rows t)
             = min (nat top_n) (card (set (map (\<lambda>r. r ''Ward Name'') (rows df)) - {Num NaN}))
         \<and> (\<forall>a\<in>set (take (nat top_n) qs). \<forall>b\<in>set (drop (nat top_n) qs).
               desc_nan_last (snd a) (snd b))))
   \<and> result_pairs ''Ward Name'' ''Value''
        (Inr (get_ward_summary (Some wards_example) ''Number of Public Toilet '' 2))
      = [(Str ''W1'', Num (Fin 7)), (Str ''W2'', Num (Fin 5))]
   \<and> result_pairs ''Zone Name'' ''Value''
        (Inr (get_zone_summary (Some wards_example) ''Number of Public Toilet ''))
      = [(Str ''Z1'', Num (Fin 8)), (Str ''Z2'', Num (Fin 5))]"
proof -
  have nonempty: "\<not> frame_empty df" using v ne by (auto simp: frame_empty_def)
  have z: "''Zone Name'' \<in> set (columns df) \<and> value_col \<noteq> ''Zone Name'' \<longrightarrow>
      (\<exists>t t' qs. is_group_summary df ''Zone Name'' value_col qs
         \<and> get_zone_summary (Some df) value_col = Some t
         \<and> columns t = [''Zone Name'', ''Value'']
         \<and> frame_pairs ''Zone Name'' ''Value'' t = map (\<lambda>(k, s). (k, Num s)) qs
         \<and> dh_get_zone_data (data(dataset \<mapsto> Some df)) dataset value_col = Inr (Some t')
         \<and> columns t' = [''Zone'', ''Value'']
         \<and> frame_pairs ''Zone'' ''Value'' t' = map (\<lambda>(k, s). (k, Num s)) qs)"
  proof
    assume h: "''Zone Name'' \<in> set (columns df) \<and> value_col \<noteq> ''Zone Name''"
    then have g: "''Zone Name'' \<in> set (columns df)" and vg: "value_col \<noteq> ''Zone Name''"
      by simp_all
    from grouped_sorted_ok [OF g v vg num] obtain qs where
      s: "is_group_summary df ''Zone Name'' value_col qs"
      and gs: "\<And>kc. grouped_sorted df ''Zone Name'' value_col kc
         = Inr \<lparr>columns = [kc, ''Value''], rows = map (pair_row kc ''Value'') qs\<rparr>"
      by blast
    let ?t = "\<lparr>columns = [''Zone Name'', ''Value''],
               rows = map (pair_row ''Zone Name'' ''Value'') qs\<rparr>"
    let ?t' = "\<lparr>columns = [''Zone'', ''Value''], rows = map (pair_row ''Zone'' ''Value'') qs\<rparr>"
    have a: "get_zone_summary (Some df) value_col = Some ?t"
      using nonempty by (simp add: get_zone_summary_def gs)
    have b: "dh_get_zone_data (data(dataset \<mapsto> Some df)) dataset value_col = Inr (Some ?t')"
      using nonempty g by (simp add: dh_get_zone_data_def lookup_def ebind_def gs)
    have c: "frame_pairs ''Zone Name'' ''Value'' ?t = map (\<lambda>(k, s). (k, Num s)) qs"
      by (rule frame_pairs_pair_rows) simp
    have d: "frame_pairs ''Zone'' ''Value'' ?t' = map (\<lambda>(k, s). (k, Num s)) qs"
      by (rule frame_pairs_pair_rows) simp
    have e: "columns ?t = [''Zone Name'', ''Value'']" "columns ?t' = [''Zone'', ''Value'']"
      by simp_all
    from s a b c d e
    show "\<exists>t t' qs. is_group_summary df ''Zone Name'' value_col qs
         \<and> get_zone_summary (Some df) value_col = Some t
         \<and> columns t = [''Zone Name'', ''Value'']
         \<and> frame_pairs ''Zone Name'' ''Value'' t = map (\<lambda>(k, s). (k, Num s)) qs
         \<and> dh_get_zone_data (data(dataset \<mapsto> Some df)) dataset value_col = Inr (Some t')
         \<and> columns t' = [''Zone'', ''Value'']
         \<and> frame_pairs ''Zone'' ''Value'' t' = map (\<lambda>(k, s). (k, Num s)) qs"
      by blast
  qed
  have w: "''Ward Name'' \<in> set (columns df) \<and> value_col \<noteq> ''Ward Name'' \<and> 0 \<le> top_n \<longrightarrow>
      (\<exists>t qs. is_group_summary df ''Ward Name'' value_col qs
         \<and> get_ward_summary (Some df) value_col top_n = Some t
         \<and> columns t = [''Ward Name'', ''Value'']
         \<and> frame_pairs ''Ward Name'' ''Value'' t
             = map (\<lambda>(k, s). (k, Num s)) (take (nat top_n) qs)
         \<and> length (rows t)
             = min (nat top_n) (card (set (map (\<lambda>r. r ''Ward Name'') (rows df)) - {Num NaN}))
         \<and> (\<forall>a\<in>set (take (nat top_n) qs). \<forall>b\<in>set (drop (nat top_n) qs).
               desc_nan_last (snd a) (snd b)))"
  proof
    assume h: "''Ward Name'' \<in> set (columns df) \<and> value_col \<noteq> ''Ward Name'' \<and> 0 \<le> top_n"
    then have g: "''Ward Name'' \<in> set (columns df)" and vg: "value_col \<noteq> ''Ward Name''"
      and k: "0 \<le> top_n"
      by simp_all
    from grouped_sorted_ok [OF g v vg num] obtain qs where
      s: "is_group_summary df ''Ward Name'' value_col qs"
      and n: "length qs = card (set (map (\<lambda>r. r ''Ward Name'') (rows df)) - {Num NaN})"
      and gs: "\<And>kc. grouped_sorted df ''Ward Name'' value_col kc
         = Inr \<lparr>columns = [kc, ''Value''], rows = map (pair_row kc ''Value'') qs\<rparr>"
      by blast
    let ?t = "\<lparr>columns = [''Ward Name'', ''Value''],
               rows = map (pair_row ''Ward Name'' ''Value'') (take (nat top_n) qs)\<rparr>"
    have a: "get_ward_summary (Some df) value_col top_n = Some ?t"
      using nonempty k by (simp add: get_ward_summary_def gs head_def take_map)
    have c: "frame_pairs ''Ward Name'' ''Value'' ?t
        = map (\<lambda>(k, s). (k, Num s)) (take (nat top_n) qs)"
      by (rule frame_pairs_pair_rows) simp
    have l: "length (rows ?t)
        = min (nat top_n) (card (set (map (\<lambda>r. r ''Ward Name'') (rows df)) - {Num NaN}))"
      using n by (simp add: min.commute)
    have srt: "sorted_wrt desc_nan_last (map snd qs)"
      using s by (simp add: is_group_summary_def)
    note top = top_of_sorted [OF srt, of "nat top_n"]
    have e: "columns ?t = [''Ward Name'', ''Value'']" by simp
    from s a e c l top
    show "\<exists>t qs. is_group_summary df ''Ward Name'' value_col qs
         \<and> get_ward_summary (Some df) value_col top_n = Some t
         \<and> columns t = [''Ward Name'', ''Value'']
         \<and> frame_pairs ''Ward Name'' ''Value'' t
             = map (\<lambda>(k, s). (k, Num s)) (take (nat top_n) qs)
         \<and> length (rows t)
             = min (nat top_n) (card (set (map (\<lambda>r. r ''Ward Name'') (rows df)) - {Num NaN}))
         \<and> (\<forall>a\<in>set (take (nat top_n) qs). \<forall>b\<in>set (drop (nat top_n) qs).
               desc_nan_last (snd a) (snd b))"
      by blast
  qed
  have ex1: "result_pairs ''Ward Name'' ''Value''
        (Inr (get_ward_summary (Some wards_example) ''Number of Public Toilet '' 2))
      = [(Str ''W1'', Num (Fin 7)), (Str ''W2'', Num (Fin 5))]"
    by (simp add: result_pairs_def frame_pairs_def get_ward_summary_def frame_empty_def
        wards_example_def ward_row_def grouped_sorted_def groupby_sum_def group_keys_def
        group_values_def series_sum_def sum_skipna_def reset_index_def pair_row_def
        sort_values_def order_by_def head_def ebind_def)
  have ex2: "result_pairs ''Zone Name'' ''Value''
        (Inr (get_zone_summary (Some wards_example) ''Number of Public Toilet ''))
      = [(Str ''Z1'', Num (Fin 8)), (Str ''Z2'', Num (Fin 5))]"
    by (simp add: result_pairs_def frame_pairs_def get_zone_summary_def frame_empty_def
        wards_example_def ward_row_def grouped_sorted_def groupby_sum_def group_keys_def
        group_values_def series_sum_def sum_skipna_def reset_index_def pair_row_def
        sort_values_def order_by_def ebind_def)
  show ?thesis by (intro conjI z w ex1 ex2)
qed

theorem C6_group_summaries_witness:
  "''Number of Public Toilet '' \<in> set (columns wards_example)
   \<and> list_all (\<lambda>r. is_num (r ''Number of Public Toilet '')) (rows wards_example)
   \<and> rows wards_example \<noteq> []
   \<and> (\<exists>t t' qs. is_group_summary wards_example ''Zone Name'' ''Number of Public Toilet '' qs
         \<and> get_zone_summary (Some wards_example) ''Number of Public Toilet '' = Some t
         \<and> columns t = [''Zone Name'', ''Value'']
         \<and> frame_pairs ''Zone Name'' ''Value'' t = map (\<lambda>(k, s). (k, Num s)) qs
         \<and> dh_get_zone_data [''water'' \<mapsto> Some wards_example] ''water''
               ''Number of Public Toilet '' = Inr (Some t')
         \<and> columns t' = [''Zone'', ''Value'']
         \<and> frame_pairs ''Zone'' ''Value'' t' = map (\<lambda>(k, s). (k, Num s)) qs)
   \<and> (\<exists>t qs. is_group_summary wards_example ''Ward Name'' ''Number of Public Toilet '' qs
         \<and> get_ward_summary (Some wards_example) ''Number of Public Toilet '' 2 = Some t
         \<and> columns t = [''Ward Name'', ''Value'']
         \<and> frame_pairs ''Ward Name'' ''Value'' t = map (\<lambda>(k, s). (k, Num s)) (take (nat 2) qs)
         \<and> length (rows t)
             = min (nat 2)
                 (card (set (map (\<lambda>r. r ''Ward Name'') (rows wards_example)) - {Num NaN}))
         \<and> (\<forall>a\<in>set (take (nat 2) qs). \<forall>b\<in>set (drop (nat 2) qs).
               desc_nan_last (snd a) (snd b)))"
proof -
  have a: "''Number of Public Toilet '' \<in> set (columns wards_example)"
    by (simp add: wards_example_def)
  have b: "list_all (\<lambda>r. is_num (r ''Number of Public Toilet '')) (rows wards_example)"
    by (simp add: wards_example_def ward_row_def)
  have c: "rows wards_example \<noteq> []" by (simp add: wards_example_def)
  note t = C6_group_summaries [where df = wards_example
      and value_col = "''Number of Public Toilet ''" and top_n = 2
      and dataset = "''water''" and data = Map.empty, OF a b c]
  have z: "''Zone Name'' \<in> set (columns wards_example)
      \<and> ''Number of Public Toilet '' \<noteq> ''Zone Name''"
    by (simp add: wards_example_def)
  have w: "''Ward Name'' \<in> set (columns wards_example)
      \<and> ''Number of Public Toilet '' \<noteq> ''Ward Name'' \<and> 0 \<le> (2::int)"
    by (simp add: wards_example_def)
  note r1 = t [THEN conjunct1, THEN mp, OF z]
  note r2 = t [THEN conjunct2, THEN conjunct1, THEN mp, OF w]
  show ?thesis by (intro conjI a b c r1 r2)
qed


end
